theory Spec2Isabelle
  imports Complex_Main
begin

text \<open>
  The session layer of the CodeGame JavaScript server: the secret generator, sockets with
  their heartbeat, loggers, players, games and the game server with its routing of upgrade
  requests.  Each class is a record, each method a function that takes the state it reads
  and returns the state it leaves; a thrown value is the left alternative of a result;
  methods that are abstract in the source and functions of the platform
  (\<^verbatim>\<open>Math.random\<close>, \<^verbatim>\<open>Date.now\<close>, \<^verbatim>\<open>JSON.parse\<close>, \<^verbatim>\<open>URLSearchParams\<close>,
  \<^verbatim>\<open>v4\<close>) are parameters.
\<close>

section \<open>JavaScript objects used as dictionaries\<close>

text \<open>
  The server keeps its games, players and sockets in plain objects indexed by id
  (\<^verbatim>\<open>{ [index: string]: T }\<close>).  Such an object is modelled as an association list with
  distinct keys in insertion order, which is the order \<^verbatim>\<open>Object.keys\<close>,
  \<^verbatim>\<open>Object.values\<close> and \<^verbatim>\<open>Object.entries\<close> enumerate for keys that are not
  canonical array indices (all ids are v4 UUIDs, which contain dashes).
\<close>

type_synonym 'v obj = "(string \<times> 'v) list"

text \<open>\<^verbatim>\<open>o[k]\<close>: the value stored under the key, \<open>None\<close> for \<^verbatim>\<open>undefined\<close>.\<close>

definition obj_get :: "'v obj \<Rightarrow> string \<Rightarrow> 'v option" where
  "obj_get ob k = map_of ob k"

text \<open>\<^verbatim>\<open>o[k] = v\<close>: an existing key keeps its position, a new key is appended.\<close>

fun obj_set :: "string \<Rightarrow> 'v \<Rightarrow> 'v obj \<Rightarrow> 'v obj" where
  "obj_set k v [] = [(k, v)]"
| "obj_set k v ((k', v') # ob) =
     (if k' = k then (k, v) # ob else (k', v') # obj_set k v ob)"

text \<open>\<^verbatim>\<open>delete o[k]\<close>.\<close>

definition obj_delete :: "string \<Rightarrow> 'v obj \<Rightarrow> 'v obj" where
  "obj_delete k ob = filter (\<lambda>e. fst e \<noteq> k) ob"

definition obj_keys :: "'v obj \<Rightarrow> string list" where
  "obj_keys ob = map fst ob"

definition obj_values :: "'v obj \<Rightarrow> 'v list" where
  "obj_values ob = map snd ob"

section \<open>secret.ts\<close>

definition chars :: string where
  "chars = ''ABCDEFGHIJKLMNOPQRSTUVWXYZabcdefghijklmnopqrstuvwxyz0123456789''"

text \<open>\<^verbatim>\<open>String.prototype.charAt\<close>: the empty string when the index is out of range.\<close>

definition charAt :: "string \<Rightarrow> int \<Rightarrow> string" where
  "charAt s i = (if 0 \<le> i \<and> i < int (length s) then [s ! nat i] else [])"

text \<open>
  The loop of \<^verbatim>\<open>randomSecret\<close>.  The results of the successive calls of
  \<^verbatim>\<open>Math.random()\<close> are the sequence \<open>rnd\<close>; the call made in iteration \<open>i\<close> is
  \<open>rnd i\<close>.
\<close>

function randomSecret_loop :: "(nat \<Rightarrow> real) \<Rightarrow> int \<Rightarrow> int \<Rightarrow> string \<Rightarrow> string" where
  "randomSecret_loop rnd len i str =
     (if i < len
      then randomSecret_loop rnd len (i + 1)
             (str @ charAt chars \<lfloor>rnd (nat i) * real (length chars)\<rfloor>)
      else str)"
  by pat_completeness auto
termination
  by (relation "measure (\<lambda>(rnd, len, i, str). nat (len - i))") auto

declare randomSecret_loop.simps [simp del]

text \<open>\<^verbatim>\<open>randomSecret(length = 64)\<close>: \<open>None\<close> is the omitted argument.\<close>

definition randomSecret :: "(nat \<Rightarrow> real) \<Rightarrow> int option \<Rightarrow> string" where
  "randomSecret rnd len =
     randomSecret_loop rnd (case len of None \<Rightarrow> 64 | Some n \<Rightarrow> n) 0 ''''"


section \<open>Values on the wire\<close>

text \<open>
  A parsed JSON text.  Commands, events, game configurations and the \<^verbatim>\<open>data\<close> payload
  of debug messages are values of this type.
\<close>

datatype json =
    JNull
  | JBool bool
  | JNum real
  | JStr string
  | JArr "json list"
  | JObj "(string \<times> json) list"

text \<open>The \<^verbatim>\<open>typeof\<close> test of the message handler: \<^verbatim>\<open>typeof v === "object"\<close>.\<close>

fun typeof_object :: "json \<Rightarrow> bool" where
  "typeof_object JNull = True"
| "typeof_object (JArr xs) = True"
| "typeof_object (JObj kvs) = True"
| "typeof_object v = False"

text \<open>JavaScript truthiness of a JSON value.\<close>

fun truthy :: "json \<Rightarrow> bool" where
  "truthy JNull = False"
| "truthy (JBool b) = b"
| "truthy (JNum r) = (r \<noteq> 0)"
| "truthy (JStr s) = (s \<noteq> [])"
| "truthy (JArr xs) = True"
| "truthy (JObj kvs) = True"

text \<open>
  The property read \<^verbatim>\<open>v.name\<close> on a value whose \<^verbatim>\<open>typeof\<close> is \<^verbatim>\<open>"object"\<close>:
  it throws a \<^verbatim>\<open>TypeError\<close> on \<^verbatim>\<open>null\<close> (the outer \<open>None\<close>), and gives
  \<^verbatim>\<open>undefined\<close> (the inner \<open>None\<close>) on an array and on an object without that key.
\<close>

fun get_name :: "json \<Rightarrow> json option option" where
  "get_name JNull = None"
| "get_name (JObj kvs) = Some (map_of kvs ''name'')"
| "get_name v = Some None"

section \<open>logger.ts: debug messages\<close>

datatype Severity = ERROR | WARNING | INFO | TRACE

text \<open>
  The text of a debug message is a template literal; it is kept as the list of its
  literal parts and interpolated values.
\<close>

datatype piece = Lit string | Val json

record DebugMessage =
  severity :: Severity
  message :: "piece list"
  data :: "json option"

text \<open>What a socket hands to \<^verbatim>\<open>JSON.stringify\<close> and then to the websocket.\<close>

datatype wire = Event json | Debug DebugMessage

section \<open>socket.ts\<close>

text \<open>
  The \<^verbatim>\<open>readyState\<close> of the websocket a \<^verbatim>\<open>Socket\<close> wraps.  A socket is created
  around a websocket whose handshake is complete, so there is no connecting state.
\<close>

datatype readyState = OPEN | CLOSING | CLOSED

text \<open>
  A \<^verbatim>\<open>Socket\<close> object.  \<open>heartbeatInterval\<close> is \<open>None\<close> while the field is
  \<^verbatim>\<open>undefined\<close>, \<open>Some True\<close> while the interval timer runs and \<open>Some False\<close> once it
  has been cleared.  \<open>sent\<close> and \<open>pings\<close> record what the websocket has accepted for
  sending.
\<close>

record socket =
  Socket_id :: string
  Socket_HEARTBEAT_INTERVAL_SECONDS :: int
  connectionAlive :: bool
  heartbeatInterval :: "bool option"
  ws :: readyState
  sent :: "wire list"
  pings :: nat

text \<open>
  The websocket library: \<^verbatim>\<open>terminate()\<close> destroys the connection at once, after which
  the \<^verbatim>\<open>close\<close> event is still to come; \<^verbatim>\<open>send\<close> and \<^verbatim>\<open>ping\<close> on a websocket that
  is not open deliver nothing (the error goes to a callback the server does not pass).
\<close>

fun ws_terminate :: "readyState \<Rightarrow> readyState" where
  "ws_terminate OPEN = CLOSING"
| "ws_terminate CLOSING = CLOSING"
| "ws_terminate CLOSED = CLOSED"

definition ws_send :: "wire \<Rightarrow> socket \<Rightarrow> socket" where
  "ws_send m s = (if ws s = OPEN then s\<lparr>sent := sent s @ [m]\<rparr> else s)"

definition ws_ping :: "socket \<Rightarrow> socket" where
  "ws_ping s = (if ws s = OPEN then s\<lparr>pings := pings s + 1\<rparr> else s)"

text \<open>
  Socket objects are shared: the map of their owner, the interval timer and the listeners
  of the websocket all refer to the same object.  They therefore live in a store indexed by
  socket id, and the maps of players, games and loggers hold references (the ids).  The
  store is part of the \<open>world\<close>, together with the lines written to the console.
\<close>

type_synonym ref = string

datatype console_line = Consola DebugMessage | Console_error string

record world =
  sockets :: "socket obj"
  console :: "console_line list"

definition on_socket :: "ref \<Rightarrow> (socket \<Rightarrow> socket) \<Rightarrow> world \<Rightarrow> world" where
  "on_socket sid f w =
     w\<lparr>sockets := map (\<lambda>e. if fst e = sid then (fst e, f (snd e)) else e) (sockets w)\<rparr>"

text \<open>
  The constructor: \<open>sid\<close> is the fresh \<^verbatim>\<open>v4()\<close> id.  \<^verbatim>\<open>startHeartbeat\<close> registers
  the three handlers below and starts the timer.
\<close>

definition Socket_new :: "ref \<Rightarrow> int \<Rightarrow> world \<Rightarrow> world" where
  "Socket_new sid heartbeatIntervalSeconds w =
     w\<lparr>sockets := obj_set sid
        \<lparr>Socket_id = sid,
         Socket_HEARTBEAT_INTERVAL_SECONDS = heartbeatIntervalSeconds,
         connectionAlive = True,
         heartbeatInterval = Some True,
         ws = OPEN,
         sent = [],
         pings = 0\<rparr> (sockets w)\<rparr>"

text \<open>\<^verbatim>\<open>terminate()\<close>.\<close>

definition Socket_terminate :: "socket \<Rightarrow> socket" where
  "Socket_terminate s = s\<lparr>ws := ws_terminate (ws s)\<rparr>"

text \<open>\<^verbatim>\<open>send(message)\<close> of the three subclasses; the \<^verbatim>\<open>try\<close> around it catches everything.\<close>

definition Socket_send :: "wire \<Rightarrow> socket \<Rightarrow> socket" where
  "Socket_send m s = ws_send m s"

text \<open>
  The handlers of \<^verbatim>\<open>startHeartbeat\<close>.  \<^verbatim>\<open>onDisconnect\<close> is abstract in \<^verbatim>\<open>Socket\<close>;
  it is a parameter here, acting on the state \<open>'o\<close> of the owner and on the world, and it
  receives the reading of the clock at the time of the call.
\<close>

type_synonym 'o onDisconnect = "int \<Rightarrow> ref \<Rightarrow> 'o \<Rightarrow> world \<Rightarrow> 'o \<times> world"

definition pong_handler :: "ref \<Rightarrow> world \<Rightarrow> world" where
  "pong_handler sid w = on_socket sid (\<lambda>s. s\<lparr>connectionAlive := True\<rparr>) w"

definition close_handler :: "'o onDisconnect \<Rightarrow> int \<Rightarrow> ref \<Rightarrow> 'o \<Rightarrow> world \<Rightarrow> 'o \<times> world" where
  "close_handler onDisconnect now sid ow w =
     (case onDisconnect now sid ow w of (ow1, w1) \<Rightarrow>
        (ow1, on_socket sid
                (\<lambda>s. case heartbeatInterval s of
                        None \<Rightarrow> s
                      | Some t \<Rightarrow> s\<lparr>heartbeatInterval := Some False\<rparr>) w1))"

definition heartbeat_handler :: "'o onDisconnect \<Rightarrow> int \<Rightarrow> ref \<Rightarrow> 'o \<Rightarrow> world \<Rightarrow> 'o \<times> world" where
  "heartbeat_handler onDisconnect now sid ow w =
     (case obj_get (sockets w) sid of
        None \<Rightarrow> (ow, w)
      | Some s \<Rightarrow>
          (case (if connectionAlive s = False
                 then onDisconnect now sid ow (on_socket sid Socket_terminate w)
                 else (ow, w)) of
             (ow1, w1) \<Rightarrow>
               (ow1, on_socket sid (\<lambda>s. ws_ping (s\<lparr>connectionAlive := False\<rparr>)) w1)))"

text \<open>
  The events a socket reacts to, and when the environment can deliver them: a pong arrives
  on an open websocket, the timer fires while it runs, and the websocket emits
  \<^verbatim>\<open>close\<close> once, when an open or terminated connection is finally closed (its
  \<^verbatim>\<open>readyState\<close> is \<^verbatim>\<open>CLOSED\<close> by then).
\<close>

datatype event = Pong | Tick | Close

fun enabled :: "event \<Rightarrow> socket \<Rightarrow> bool" where
  "enabled Pong s = (ws s = OPEN)"
| "enabled Tick s = (heartbeatInterval s = Some True)"
| "enabled Close s = (ws s \<noteq> CLOSED)"

fun deliver :: "'o onDisconnect \<Rightarrow> int \<Rightarrow> ref \<Rightarrow> event \<Rightarrow> 'o \<Rightarrow> world \<Rightarrow> 'o \<times> world" where
  "deliver onDisconnect now sid Pong ow w = (ow, pong_handler sid w)"
| "deliver onDisconnect now sid Tick ow w = heartbeat_handler onDisconnect now sid ow w"
| "deliver onDisconnect now sid Close ow w =
     close_handler onDisconnect now sid ow (on_socket sid (\<lambda>s. s\<lparr>ws := CLOSED\<rparr>) w)"

text \<open>
  One step of a connection, \<open>None\<close> when the event cannot occur in the state, and the run
  of a list of timed events.
\<close>

definition step ::
  "'o onDisconnect \<Rightarrow> ref \<Rightarrow> int \<times> event \<Rightarrow> 'o \<times> world \<Rightarrow> ('o \<times> world) option" where
  "step onDisconnect sid te st =
     (case obj_get (sockets (snd st)) sid of
        None \<Rightarrow> None
      | Some s \<Rightarrow>
          if enabled (snd te) s
          then Some (deliver onDisconnect (fst te) sid (snd te) (fst st) (snd st))
          else None)"

fun run ::
  "'o onDisconnect \<Rightarrow> ref \<Rightarrow> (int \<times> event) list \<Rightarrow> 'o \<times> world \<Rightarrow> ('o \<times> world) option" where
  "run onDisconnect sid [] st = Some st"
| "run onDisconnect sid (te # tes) st =
     (case step onDisconnect sid te st of
        None \<Rightarrow> None
      | Some st' \<Rightarrow> run onDisconnect sid tes st')"

text \<open>
  A connection's life is over when no event can occur any more: the websocket is closed
  and the timer is cleared.
\<close>

definition finished :: "ref \<Rightarrow> world \<Rightarrow> bool" where
  "finished sid w =
     (case obj_get (sockets w) sid of
        None \<Rightarrow> False
      | Some s \<Rightarrow> \<not> enabled Pong s \<and> \<not> enabled Tick s \<and> \<not> enabled Close s)"


section \<open>logger.ts\<close>

text \<open>A logger holds the debug sockets that observe its scope.\<close>

record logger =
  Logger_debugSockets :: "ref obj"

definition Logger_new :: logger where
  "Logger_new = \<lparr>Logger_debugSockets = []\<rparr>"

definition broadcastDebugMessage :: "DebugMessage \<Rightarrow> logger \<Rightarrow> world \<Rightarrow> world" where
  "broadcastDebugMessage m lg w =
     foldl (\<lambda>w' debugSocket. on_socket debugSocket (Socket_send (Debug m)) w')
       w (obj_values (Logger_debugSockets lg))"

definition Logger_error :: "piece list \<Rightarrow> json option \<Rightarrow> logger \<Rightarrow> world \<Rightarrow> world" where
  "Logger_error msg dat lg w =
     broadcastDebugMessage \<lparr>severity = ERROR, message = msg, data = dat\<rparr> lg w"

definition Logger_warn :: "piece list \<Rightarrow> json option \<Rightarrow> logger \<Rightarrow> world \<Rightarrow> world" where
  "Logger_warn msg dat lg w =
     broadcastDebugMessage \<lparr>severity = WARNING, message = msg, data = dat\<rparr> lg w"

definition Logger_info :: "piece list \<Rightarrow> json option \<Rightarrow> logger \<Rightarrow> world \<Rightarrow> world" where
  "Logger_info msg dat lg w =
     broadcastDebugMessage \<lparr>severity = INFO, message = msg, data = dat\<rparr> lg w"

definition Logger_trace :: "piece list \<Rightarrow> json option \<Rightarrow> logger \<Rightarrow> world \<Rightarrow> world" where
  "Logger_trace msg dat lg w =
     broadcastDebugMessage \<lparr>severity = TRACE, message = msg, data = dat\<rparr> lg w"

text \<open>The \<^verbatim>\<open>Stdout\<close> variants first print the message (after a time stamp) with consola.\<close>

definition Logger_errorStdout :: "piece list \<Rightarrow> json option \<Rightarrow> logger \<Rightarrow> world \<Rightarrow> world" where
  "Logger_errorStdout msg dat lg w =
     Logger_error msg dat lg
       (w\<lparr>console := console w @ [Consola \<lparr>severity = ERROR, message = msg, data = dat\<rparr>]\<rparr>)"

definition Logger_infoStdout :: "piece list \<Rightarrow> json option \<Rightarrow> logger \<Rightarrow> world \<Rightarrow> world" where
  "Logger_infoStdout msg dat lg w =
     Logger_info msg dat lg
       (w\<lparr>console := console w @ [Consola \<lparr>severity = INFO, message = msg, data = dat\<rparr>]\<rparr>)"

definition Logger_addDebugSocket :: "ref \<Rightarrow> logger \<Rightarrow> logger" where
  "Logger_addDebugSocket debugSocket lg =
     lg\<lparr>Logger_debugSockets := obj_set debugSocket debugSocket (Logger_debugSockets lg)\<rparr>"

definition Logger_removeDebugSocket :: "ref \<Rightarrow> logger \<Rightarrow> logger" where
  "Logger_removeDebugSocket debugSocket lg =
     lg\<lparr>Logger_debugSockets := obj_delete debugSocket (Logger_debugSockets lg)\<rparr>"

section \<open>player.ts\<close>

text \<open>
  A \<^verbatim>\<open>Player\<close> object.  The maps of sockets are indexed by socket id and hold the
  sockets by reference.  The back-reference \<^verbatim>\<open>game\<close> is abstract in the class and belongs
  to the subclass.
\<close>

record player =
  Player_id :: string
  username :: string
  Player_secret :: string
  gameSockets :: "ref obj"
  Player_debugSockets :: "ref obj"
  inactiveSince :: int
  Player_logger :: logger

text \<open>The constructor; \<open>pid\<close> is the fresh \<^verbatim>\<open>v4()\<close> id.\<close>

definition Player_new :: "string \<Rightarrow> (nat \<Rightarrow> real) \<Rightarrow> string \<Rightarrow> player" where
  "Player_new pid rnd name =
     \<lparr>Player_id = pid,
      username = name,
      Player_secret = randomSecret rnd None,
      gameSockets = [],
      Player_debugSockets = [],
      inactiveSince = 0,
      Player_logger = Logger_new\<rparr>"

definition Player_verifySecret :: "string \<Rightarrow> player \<Rightarrow> world \<Rightarrow> bool \<times> world" where
  "Player_verifySecret secret p w =
     (Player_secret p = secret,
      Logger_warn
        [Lit (''Player secret validation failed. Someone might be trying hijack your player. It''
              @ [CHR 0x27] @ ''s very unlikely they'' @ [CHR 0x27]
              @ ''ll have any luck though.'')]
        None (Player_logger p) w)"

definition Player_terminate :: "player \<Rightarrow> world \<Rightarrow> world" where
  "Player_terminate p w =
     (let w1 = Logger_warn [Lit ''This player is being terminated due to inactivity.'']
                 (Some (JObj [(''inactive_since'', JNum (real_of_int (inactiveSince p)))]))
                 (Player_logger p) w;
          w2 = foldl (\<lambda>w' s. on_socket s Socket_terminate w') w1 (obj_values (gameSockets p))
      in foldl (\<lambda>w' s. on_socket s Socket_terminate w') w2 (obj_values (Player_debugSockets p)))"

definition Player_addGameSocket :: "ref \<Rightarrow> player \<Rightarrow> world \<Rightarrow> player \<times> world" where
  "Player_addGameSocket gameSocket p w =
     (p\<lparr>gameSockets := obj_set gameSocket gameSocket (gameSockets p)\<rparr>,
      Logger_info [Lit ''A new game socket connected to the player.'']
        (Some (JObj [(''socket_id'', JStr gameSocket)])) (Player_logger p) w)"

text \<open>\<open>now\<close> is the value of \<^verbatim>\<open>Date.now()\<close> at the call.\<close>

definition Player_removeGameSocket :: "int \<Rightarrow> ref \<Rightarrow> player \<Rightarrow> world \<Rightarrow> player \<times> world" where
  "Player_removeGameSocket now s p w =
     (let p1 = p\<lparr>gameSockets := obj_delete s (gameSockets p)\<rparr>;
          w1 = Logger_info [Lit ''A game socket disconnected from the player.'']
                 (Some (JObj [(''socket_id'', JStr s)])) (Player_logger p1) w
      in (if length (obj_keys (gameSockets p1)) = 0 then p1\<lparr>inactiveSince := now\<rparr> else p1,
          w1))"

definition Player_addDebugSocket :: "ref \<Rightarrow> player \<Rightarrow> player" where
  "Player_addDebugSocket debugSocket p =
     p\<lparr>Player_debugSockets := obj_set debugSocket debugSocket (Player_debugSockets p)\<rparr>"

definition Player_removeDebugSocket :: "ref \<Rightarrow> player \<Rightarrow> player" where
  "Player_removeDebugSocket s p =
     p\<lparr>Player_debugSockets := obj_delete s (Player_debugSockets p)\<rparr>"

definition Player_active :: "player \<Rightarrow> bool" where
  "Player_active p = (length (obj_keys (gameSockets p)) \<noteq> 0)"

text \<open>
  The value interpolated by \<^verbatim>\<open>${command.name}\<close> and \<^verbatim>\<open>${event.name}\<close>; an absent
  name reads \<^verbatim>\<open>undefined\<close>.
\<close>

definition name_of :: "json \<Rightarrow> json" where
  "name_of v = (case get_name v of Some (Some n) \<Rightarrow> n | _ \<Rightarrow> JStr ''undefined'')"

definition Player_sendEvent :: "json \<Rightarrow> player \<Rightarrow> world \<Rightarrow> world" where
  "Player_sendEvent ev p w =
     (let w1 = foldl (\<lambda>w' s. on_socket s (Socket_send (Event ev)) w') w
                 (obj_values (gameSockets p))
      in Logger_trace [Lit (''Sent event '' @ [CHR 0x22]), Val (name_of ev), Lit ([CHR 0x22] @ ''.'')]
           (Some (JObj [(''event'', ev)])) (Player_logger p) w1)"

text \<open>
  Interpolating a value into a template literal converts it to a string.  For a value that
  came out of \<^verbatim>\<open>JSON.parse\<close> the conversion throws a \<^verbatim>\<open>TypeError\<close> exactly when it
  meets an object with an own \<^verbatim>\<open>toString\<close> property (which is not callable, and the
  inherited \<^verbatim>\<open>valueOf\<close> returns the object itself); an array converts its elements, except
  \<^verbatim>\<open>null\<close>, in turn.
\<close>

fun interpolates :: "json \<Rightarrow> bool" where
  "interpolates (JObj kvs) = (map_of kvs ''toString'' = None)"
| "interpolates (JArr xs) = (\<forall>x \<in> set xs. interpolates x)"
| "interpolates v = True"

text \<open>
  \<^verbatim>\<open>handleCommand\<close> is abstract: the subclass may change the player and the world, and
  returns whether it handled the command (\<open>Inr\<close>) or throws (\<open>Inl\<close>).
\<close>

type_synonym handleCommand = "json \<Rightarrow> player \<Rightarrow> world \<Rightarrow> (string + bool) \<times> player \<times> world"

definition Player_handleCommandInternalWrapper ::
  "handleCommand \<Rightarrow> json \<Rightarrow> player \<Rightarrow> world \<Rightarrow> player \<times> world" where
  "Player_handleCommandInternalWrapper handleCommand command p w =
     (let name = name_of command
      in if \<not> interpolates name
         then (p, w\<lparr>console := console w @ [Console_error ''TypeError'']\<rparr>)
         else
           (let w1 = Logger_trace [Lit (''Received command '' @ [CHR 0x22]), Val name, Lit ([CHR 0x22] @ ''.'')]
                       (Some (JObj [(''command'', command)])) (Player_logger p) w
            in case handleCommand command p w1 of
                 (Inl err, p2, w2) \<Rightarrow> (p2, w2\<lparr>console := console w2 @ [Console_error err]\<rparr>)
               | (Inr handled, p2, w2) \<Rightarrow>
                   if \<not> handled
                   then (p2, Logger_error
                               [Lit (''Command '' @ [CHR 0x22]), Val name,
                                Lit ([CHR 0x22] @ '' is unknown and cannot be handled.'')]
                               (Some (JObj [(''command'', command)])) (Player_logger p2) w2)
                   else (p2, w2)))"

section \<open>game-socket.ts\<close>

text \<open>
  \<^verbatim>\<open>handleMessage\<close> of a game socket of player \<open>p\<close>.  \<open>raw\<close> is
  \<^verbatim>\<open>message.data.toString()\<close>; \<^verbatim>\<open>JSON.parse\<close> is the parameter \<open>JSON_parse\<close>,
  with \<open>None\<close> for a \<^verbatim>\<open>SyntaxError\<close>.
\<close>

definition GameSocket_handleMessage ::
  "(string \<Rightarrow> json option) \<Rightarrow> handleCommand \<Rightarrow> string \<Rightarrow> player \<Rightarrow> world \<Rightarrow> player \<times> world" where
  "GameSocket_handleMessage JSON_parse handleCommand raw p w =
     (let caught = (p, Logger_error [Lit ''Unable to deserialize socket message.'']
                         (Some (JObj [(''raw_message'', JStr raw)])) (Player_logger p) w)
      in case JSON_parse raw of
           None \<Rightarrow> caught
         | Some deserialized \<Rightarrow>
             if \<not> typeof_object deserialized
             then (p, Logger_error [Lit ''Socket message must represent a JSON object.'']
                        (Some (JObj [(''raw_message'', JStr raw)])) (Player_logger p) w)
             else (case get_name deserialized of
                     None \<Rightarrow> caught
                   | Some name \<Rightarrow>
                       if \<not> (case name of None \<Rightarrow> False | Some v \<Rightarrow> truthy v)
                       then (p, Logger_error
                                  [Lit ''Commands must have a `name` property to be valid.'']
                                  (Some (JObj [(''invalid_command'', deserialized)]))
                                  (Player_logger p) w)
                       else Player_handleCommandInternalWrapper handleCommand deserialized p w))"

text \<open>\<^verbatim>\<open>send\<close> and \<^verbatim>\<open>onDisconnect\<close> of a game socket.\<close>

definition GameSocket_send :: "json \<Rightarrow> ref \<Rightarrow> world \<Rightarrow> world" where
  "GameSocket_send ev sid w = on_socket sid (Socket_send (Event ev)) w"

definition GameSocket_onDisconnect :: "player onDisconnect" where
  "GameSocket_onDisconnect now sid p w = Player_removeGameSocket now sid p w"


section \<open>game.ts\<close>

text \<open>
  A \<^verbatim>\<open>Game\<close> object.  It owns its players; spectators are sockets, held by reference.
\<close>

record game =
  MAX_PLAYER_COUNT :: int
  MAX_INACTIVE_TIME_MINUTES :: int
  Game_id :: string
  protected :: bool
  Game_secret :: string
  config :: json
  players :: "player obj"
  spectators :: "ref obj"
  Game_logger :: logger
  joiningAllowed :: bool

definition DEFAULT_MAX_PLAYER_COUNT :: int where
  "DEFAULT_MAX_PLAYER_COUNT = 6"

definition DEFAULT_MAX_INACTIVE_MINUTES :: int where
  "DEFAULT_MAX_INACTIVE_MINUTES = 10"

text \<open>
  The constructor.  \<open>gid\<close> is the fresh \<^verbatim>\<open>v4()\<close> id, \<open>rnd\<close> the random numbers the
  secret is drawn from, \<open>configSanitizer\<close> the abstract method of the subclass; an omitted
  argument is \<open>None\<close>.
\<close>

definition Game_new ::
  "string \<Rightarrow> (nat \<Rightarrow> real) \<Rightarrow> (json option \<Rightarrow> json) \<Rightarrow> bool \<Rightarrow> json option
     \<Rightarrow> int option \<Rightarrow> int option \<Rightarrow> game" where
  "Game_new gid rnd configSanitizer protected' config' maxPlayerCount maxInactiveTimeMinutes =
     (let mpc = (case maxPlayerCount of None \<Rightarrow> DEFAULT_MAX_PLAYER_COUNT | Some n \<Rightarrow> n);
          mit = (case maxInactiveTimeMinutes of None \<Rightarrow> DEFAULT_MAX_INACTIVE_MINUTES | Some n \<Rightarrow> n)
      in \<lparr>MAX_PLAYER_COUNT = (if mpc \<noteq> 0 then max mpc 1 else DEFAULT_MAX_PLAYER_COUNT),
          MAX_INACTIVE_TIME_MINUTES = (if mit \<noteq> 0 then mit else DEFAULT_MAX_INACTIVE_MINUTES),
          Game_id = gid,
          protected = protected',
          Game_secret = randomSecret rnd None,
          config = configSanitizer config',
          players = [],
          spectators = [],
          Game_logger = Logger_new,
          joiningAllowed = True\<rparr>)"

definition Game_verifySecret :: "string \<Rightarrow> game \<Rightarrow> bool" where
  "Game_verifySecret secret g = (Game_secret g = secret)"

text \<open>
  \<^verbatim>\<open>active()\<close>: the loop over \<^verbatim>\<open>Object.values(this.players)\<close>.  A player that is
  neither active nor inside the inactivity window is terminated on the way.
\<close>

fun Game_active_loop :: "int \<Rightarrow> int \<Rightarrow> player list \<Rightarrow> bool \<Rightarrow> world \<Rightarrow> bool \<times> world" where
  "Game_active_loop now maxMinutes [] active w = (active, w)"
| "Game_active_loop now maxMinutes (p # ps) active w =
     (if Player_active p \<or> inactiveSince p > now - maxMinutes * 60 * 1000
      then Game_active_loop now maxMinutes ps True w
      else Game_active_loop now maxMinutes ps active (Player_terminate p w))"

definition Game_active :: "int \<Rightarrow> game \<Rightarrow> world \<Rightarrow> bool \<times> world" where
  "Game_active now g w =
     Game_active_loop now (MAX_INACTIVE_TIME_MINUTES g) (obj_values (players g)) False w"

definition Game_terminate :: "game \<Rightarrow> world \<Rightarrow> world" where
  "Game_terminate g w =
     (let w1 = Logger_warn [Lit ''This game is being terminated due to inactivity.''] None
                 (Game_logger g) w
      in foldl (\<lambda>w' p. Player_terminate p w') w1 (obj_values (players g)))"

definition Game_broadcastEvent :: "json \<Rightarrow> string list \<Rightarrow> game \<Rightarrow> world \<Rightarrow> world" where
  "Game_broadcastEvent ev omitPlayersById g w =
     (let w1 = Logger_trace
                 [Lit (''Broadcasting '' @ [CHR 0x22]), Val (name_of ev),
                  Lit ([CHR 0x22] @ '' event to all players...'')]
                 (Some (JObj [(''event'', ev)])) (Game_logger g) w;
          w2 = foldl (\<lambda>w' e. if fst e \<in> set omitPlayersById then w'
                               else Player_sendEvent ev (snd e) w') w1 (players g)
      in foldl (\<lambda>w' s. on_socket s (Socket_send (Event ev)) w') w2 (obj_values (spectators g)))"

definition Game_getPlayerCount :: "game \<Rightarrow> int" where
  "Game_getPlayerCount g = int (length (obj_keys (players g)))"

definition Game_full :: "game \<Rightarrow> bool" where
  "Game_full g = (\<not> (Game_getPlayerCount g < MAX_PLAYER_COUNT g))"

definition Game_allowJoining :: "game \<Rightarrow> world \<Rightarrow> game \<times> world" where
  "Game_allowJoining g w =
     (g\<lparr>joiningAllowed := True\<rparr>,
      Logger_warn [Lit ''Joining has been re-allowed.''] None (Game_logger g) w)"

definition Game_disallowJoining :: "game \<Rightarrow> world \<Rightarrow> game \<times> world" where
  "Game_disallowJoining g w =
     (g\<lparr>joiningAllowed := False\<rparr>,
      Logger_warn [Lit ''Joining has been disallowed temporarily.''] None (Game_logger g) w)"

definition Game_joinable :: "game \<Rightarrow> bool" where
  "Game_joinable g = joiningAllowed g"

text \<open>\<^verbatim>\<open>getPlayer\<close>: \<open>None\<close> is \<^verbatim>\<open>undefined\<close>, for an id that is not a key.\<close>

definition Game_getPlayer :: "string \<Rightarrow> game \<Rightarrow> player option" where
  "Game_getPlayer playerId' g = obj_get (players g) playerId'"

text \<open>
  \<^verbatim>\<open>addPlayer\<close>.  \<^verbatim>\<open>createPlayer\<close> and \<^verbatim>\<open>playerAdded\<close> are abstract and supplied by the
  subclass.  The thrown string is the left alternative of the result; the game and the
  world are returned as they are at the time of the throw.
\<close>

type_synonym createPlayer = "string \<Rightarrow> game \<Rightarrow> player"
type_synonym playerHook = "player \<Rightarrow> game \<Rightarrow> world \<Rightarrow> game \<times> world"

definition Game_addPlayer ::
  "createPlayer \<Rightarrow> playerHook \<Rightarrow> string \<Rightarrow> game \<Rightarrow> world \<Rightarrow> (string + player) \<times> game \<times> world" where
  "Game_addPlayer createPlayer playerAdded name g w =
     (if Game_full g then (Inl ''The game is full.'', g, w)
      else
        (let newPlayer = createPlayer name g;
             g1 = g\<lparr>players := obj_set (Player_id newPlayer) newPlayer (players g)\<rparr>;
             w1 = Logger_info
                    [Lit (username newPlayer), Lit '' ('', Lit (Player_id newPlayer),
                     Lit '') joined the game.'']
                    None (Game_logger g1) w
         in case playerAdded newPlayer g1 w1 of (g2, w2) \<Rightarrow> (Inr newPlayer, g2, w2)))"

definition Game_removePlayer :: "playerHook \<Rightarrow> player \<Rightarrow> game \<Rightarrow> world \<Rightarrow> game \<times> world" where
  "Game_removePlayer playerRemoved p g w =
     (let w1 = Logger_info
                 [Lit ''Player '', Lit (username p), Lit '' ('', Lit (Player_id p),
                  Lit '') left the game.'']
                 None (Game_logger g) w
      in case playerRemoved p g w1 of
           (g2, w2) \<Rightarrow> (g2\<lparr>players := obj_delete (Player_id p) (players g2)\<rparr>, w2))"

definition Game_addSpectator :: "ref \<Rightarrow> game \<Rightarrow> world \<Rightarrow> game \<times> world" where
  "Game_addSpectator s g w =
     (let g1 = g\<lparr>spectators := obj_set s s (spectators g)\<rparr>
      in (g1, Logger_info
                [Lit ''A new spectator is now watching the game. (total spectators: '',
                 Val (JNum (real (length (obj_keys (spectators g1))))), Lit '')'']
                None (Game_logger g1) w))"

definition Game_removeSpectator :: "ref \<Rightarrow> game \<Rightarrow> world \<Rightarrow> game \<times> world" where
  "Game_removeSpectator s g w =
     (let g1 = g\<lparr>spectators := obj_delete s (spectators g)\<rparr>
      in (g1, Logger_info
                [Lit ''A spectator has stopped watching the game. (total spectators: '',
                 Val (JNum (real (length (obj_keys (spectators g1))))), Lit '')'']
                None (Game_logger g1) w))"


section \<open>server.ts\<close>

text \<open>
  The state of a \<^verbatim>\<open>GameServer\<close>: its two maps of games, which own the games, its
  configuration and its logger.
\<close>

record server =
  MAX_GAMES_COUNT :: int
  HEARTBEAT_INTERVAL_SECONDS :: int
  publicGames :: "game obj"
  privateGames :: "game obj"
  GameServer_logger :: logger

definition DEFAULT_GAMES_COUNT :: int where
  "DEFAULT_GAMES_COUNT = 500"

definition DEFAULT_HEARTBEAT_INTERVAL_SECONDS :: int where
  "DEFAULT_HEARTBEAT_INTERVAL_SECONDS = 10 * 60"

text \<open>The part of the constructor that sets up this state; an omitted argument is \<open>None\<close>.\<close>

definition GameServer_new :: "int option \<Rightarrow> int option \<Rightarrow> server" where
  "GameServer_new maxGamesCount heartbeatIntervalSeconds =
     (let mgc = (case maxGamesCount of None \<Rightarrow> DEFAULT_GAMES_COUNT | Some n \<Rightarrow> n);
          hbs = (case heartbeatIntervalSeconds of
                   None \<Rightarrow> DEFAULT_HEARTBEAT_INTERVAL_SECONDS | Some n \<Rightarrow> n)
      in \<lparr>MAX_GAMES_COUNT = (if mgc = 0 then DEFAULT_GAMES_COUNT else mgc),
          HEARTBEAT_INTERVAL_SECONDS =
            (if hbs = 0 then DEFAULT_HEARTBEAT_INTERVAL_SECONDS else hbs),
          publicGames = [],
          privateGames = [],
          GameServer_logger = Logger_new\<rparr>)"

text \<open>\<^verbatim>\<open>getGame\<close>: \<^verbatim>\<open>this.publicGames[gameId] || this.privateGames[gameId]\<close>.\<close>

definition getGame :: "string \<Rightarrow> server \<Rightarrow> game option" where
  "getGame gameId' srv =
     (case obj_get (publicGames srv) gameId' of
        Some g \<Rightarrow> Some g
      | None \<Rightarrow> obj_get (privateGames srv) gameId')"

definition maxGamesCountReached :: "server \<Rightarrow> bool" where
  "maxGamesCountReached srv =
     (int (length (obj_keys (publicGames srv))) + int (length (obj_keys (publicGames srv)))
        = MAX_GAMES_COUNT srv)"

text \<open>
  \<^verbatim>\<open>deleteInactive\<close>: the loop runs over the entries \<^verbatim>\<open>Object.entries\<close> returned
  before the first iteration.  \<open>now\<close> is the reading of the clock during the sweep.
\<close>

fun deleteInactive_loop ::
  "int \<Rightarrow> (string \<times> game) list \<Rightarrow> server \<Rightarrow> world \<Rightarrow> string list
     \<Rightarrow> server \<times> world \<times> string list" where
  "deleteInactive_loop now [] srv w deleted = (srv, w, deleted)"
| "deleteInactive_loop now ((gameId', g) # entries) srv w deleted =
     (case Game_active now g w of
        (active, w1) \<Rightarrow>
          if \<not> active
          then deleteInactive_loop now entries
                 (srv\<lparr>publicGames := obj_delete gameId' (publicGames srv),
                      privateGames := obj_delete gameId' (privateGames srv)\<rparr>)
                 (Game_terminate g w1)
                 (deleted @ [gameId'])
          else deleteInactive_loop now entries srv w1 deleted)"

definition deleteInactive :: "int \<Rightarrow> server \<Rightarrow> world \<Rightarrow> server \<times> world" where
  "deleteInactive now srv w =
     (case deleteInactive_loop now (publicGames srv) srv w [] of
        (srv1, w1, deleted) \<Rightarrow>
          (srv1,
           if length deleted > 0
           then Logger_info
                  [Lit ''Deleted '', Val (JNum (real (length deleted))), Lit '' inactive games.'']
                  (Some (JObj [(''deleted_games_ids'', JArr (map JStr deleted))]))
                  (GameServer_logger srv1) w1
           else w1))"

text \<open>
  \<^verbatim>\<open>createGame\<close>.  \<open>createGameFn\<close> is the factory passed to the constructor of the
  server.  The thrown string is the left alternative of the result.
\<close>

record createGame_result =
  gameId :: string
  joinSecret :: "string option"

type_synonym createGameFn = "bool \<Rightarrow> json option \<Rightarrow> game"

definition createGame ::
  "createGameFn \<Rightarrow> int \<Rightarrow> bool \<Rightarrow> bool \<Rightarrow> json option \<Rightarrow> server \<Rightarrow> world
     \<Rightarrow> (string + createGame_result) \<times> server \<times> world" where
  "createGame createGameFn now public' protected' config' srv w =
     (case deleteInactive now srv w of
        (srv1, w1) \<Rightarrow>
          if maxGamesCountReached srv1
          then (let errorMessage = ''The maximum number of games for this server has been reached.''
                in (Inl errorMessage, srv1,
                    Logger_errorStdout [Lit (''Unable to create a new game: '' @ errorMessage)]
                      None (GameServer_logger srv1) w1))
          else
            (let g = createGameFn protected' config';
                 res = \<lparr>gameId = Game_id g, joinSecret = Some (Game_secret g)\<rparr>
             in if public'
                then (Inr res,
                      srv1\<lparr>publicGames := obj_set (Game_id g) g (publicGames srv1)\<rparr>,
                      Logger_infoStdout
                        [Lit ''Created new public game '', Lit (Game_id g), Lit ''.'']
                        None (GameServer_logger srv1) w1)
                else (Inr res,
                      srv1\<lparr>privateGames := obj_set (Game_id g) g (privateGames srv1)\<rparr>,
                      Logger_infoStdout
                        [Lit ''Created new private game '', Lit (take 8 (Game_id g)),
                         Lit ''-****-****-****-************.'']
                        None (GameServer_logger srv1) w1)))"

subsection \<open>Routing of upgrade requests\<close>

text \<open>
  The regular expression \<^verbatim>\<open>pathMatcher\<close>.  Its character classes exclude \<^verbatim>\<open>/\<close> and
  \<^verbatim>\<open>?\<close>, so a matching URL is \<^verbatim>\<open>/api/games/\<close>, then non-empty segments separated by
  \<^verbatim>\<open>/\<close> (a game id, a route, and any number of pairs of a player id and a player
  route, of which the groups keep the last), then nothing or a \<^verbatim>\<open>?\<close> and a non-empty query
  without line terminators.
\<close>

definition hex_or_dash :: "char \<Rightarrow> bool" where
  "hex_or_dash c = (c \<in> set ''ABCDEFabcdef0123456789-'')"

definition word_char :: "char \<Rightarrow> bool" where
  "word_char c = (c \<in> set ''ABCDEFGHIJKLMNOPQRSTUVWXYZabcdefghijklmnopqrstuvwxyz0123456789_'')"

definition dot_char :: "char \<Rightarrow> bool" where
  "dot_char c = (c \<noteq> CHR 0x0A \<and> c \<noteq> CHR 0x0D)"

fun strip_prefix :: "string \<Rightarrow> string \<Rightarrow> string option" where
  "strip_prefix [] s = Some s"
| "strip_prefix (p # ps) [] = None"
| "strip_prefix (p # ps) (c # cs) = (if p = c then strip_prefix ps cs else None)"

fun split_on :: "char \<Rightarrow> string \<Rightarrow> string list" where
  "split_on d [] = [[]]"
| "split_on d (c # cs) =
     (if c = d then [] # split_on d cs
      else (case split_on d cs of
              [] \<Rightarrow> [[c]]
            | s # ss \<Rightarrow> (c # s) # ss))"

text \<open>
  The repeated group of player id and player route: \<open>None\<close> when the segments do not
  match, otherwise the last pair, if there is one.
\<close>

fun player_groups :: "string list \<Rightarrow> (string \<times> string) option option" where
  "player_groups [] = Some None"
| "player_groups [x] = None"
| "player_groups (pid # proute # rest) =
     (if pid \<noteq> [] \<and> list_all hex_or_dash pid \<and> proute \<noteq> [] \<and> list_all word_char proute
      then (case player_groups rest of
              None \<Rightarrow> None
            | Some None \<Rightarrow> Some (Some (pid, proute))
            | Some (Some later) \<Rightarrow> Some (Some later))
      else None)"

record url_groups =
  g_gameId :: string
  g_route :: string
  g_player :: "(string \<times> string) option"
  g_query :: "string option"

definition pathMatcher_exec :: "string \<Rightarrow> url_groups option" where
  "pathMatcher_exec url =
     (let path = takeWhile (\<lambda>c. c \<noteq> CHR ''?'') url;
          rest = dropWhile (\<lambda>c. c \<noteq> CHR ''?'') url;
          query = (if rest = [] then None else Some (tl rest))
      in if (case query of None \<Rightarrow> False | Some q \<Rightarrow> q = [] \<or> \<not> list_all dot_char q)
         then None
         else (case strip_prefix ''/api/games/'' path of
                 None \<Rightarrow> None
               | Some segments \<Rightarrow>
                   (case split_on CHR ''/'' segments of
                      gid # rt # others \<Rightarrow>
                        if gid \<noteq> [] \<and> list_all hex_or_dash gid \<and> rt \<noteq> [] \<and> list_all word_char rt
                        then (case player_groups others of
                                None \<Rightarrow> None
                              | Some pg \<Rightarrow>
                                  Some \<lparr>g_gameId = gid, g_route = rt, g_player = pg,
                                        g_query = query\<rparr>)
                        else None
                    | _ \<Rightarrow> None)))"

text \<open>
  \<^verbatim>\<open>deserializeURL\<close>.  \<open>searchParam q k\<close> stands for
  \<^verbatim>\<open>new URLSearchParams(q).get(k)\<close>, with \<open>None\<close> for \<^verbatim>\<open>null\<close>.
\<close>

record url_parts =
  url_gameId :: "string option"
  route :: "string option"
  playerId :: "string option"
  playerRoute :: "string option"
  playerSecret :: "string option"

definition deserializeURL :: "(string \<Rightarrow> string \<Rightarrow> string option) \<Rightarrow> string \<Rightarrow> url_parts" where
  "deserializeURL searchParam url =
     (case pathMatcher_exec url of
        None \<Rightarrow>
          \<lparr>url_gameId = None, route = None, playerId = None, playerRoute = None,
           playerSecret = searchParam [] ''player_secret''\<rparr>
      | Some groups \<Rightarrow>
          \<lparr>url_gameId = Some (g_gameId groups),
           route = Some (g_route groups),
           playerId = map_option fst (g_player groups),
           playerRoute = map_option snd (g_player groups),
           playerSecret =
             searchParam (case g_query groups of None \<Rightarrow> [] | Some q \<Rightarrow> q) ''player_secret''\<rparr>)"

text \<open>
  What the callback in \<^verbatim>\<open>handleUpgrades\<close> did with the new websocket: it wrapped it in
  a socket attached to an owner, it destroyed the underlying connection, it returned having
  done neither, or it threw.
\<close>

datatype upgrade_outcome = Attached ref | Destroyed | Unattached | Thrown string

text \<open>
  The game \<^verbatim>\<open>getGame\<close> returned is changed in place, in the map it was found in; so is
  the player \<^verbatim>\<open>getPlayer\<close> returned, under the key it was found under.
\<close>

definition update_game :: "string \<Rightarrow> game \<Rightarrow> server \<Rightarrow> server" where
  "update_game gameId' g srv =
     (case obj_get (publicGames srv) gameId' of
        Some g0 \<Rightarrow> srv\<lparr>publicGames := obj_set gameId' g (publicGames srv)\<rparr>
      | None \<Rightarrow> srv\<lparr>privateGames := obj_set gameId' g (privateGames srv)\<rparr>)"

text \<open>
  The callback of \<^verbatim>\<open>handleUpgrades\<close> for one request.  \<open>url\<close> is \<^verbatim>\<open>request.url\<close>
  and \<open>sid\<close> the \<^verbatim>\<open>v4()\<close> id a socket created for the websocket gets.
\<close>

definition handleUpgrades ::
  "(string \<Rightarrow> string \<Rightarrow> string option) \<Rightarrow> ref \<Rightarrow> string option \<Rightarrow> server \<Rightarrow> world
     \<Rightarrow> upgrade_outcome \<times> server \<times> world" where
  "handleUpgrades searchParam sid url srv w =
     (case url of
        None \<Rightarrow> (Destroyed, srv, w)
      | Some u \<Rightarrow>
          if u = [] then (Destroyed, srv, w)
          else if u = ''/api/debug''
          then (Attached sid,
                srv\<lparr>GameServer_logger := Logger_addDebugSocket sid (GameServer_logger srv)\<rparr>,
                Socket_new sid (HEARTBEAT_INTERVAL_SECONDS srv) w)
          else
            (let parts = deserializeURL searchParam u
             in case url_gameId parts of
                  None \<Rightarrow> (Destroyed, srv, w)
                | Some gid \<Rightarrow>
                    if gid = [] then (Destroyed, srv, w)
                    else (case getGame gid srv of
                            None \<Rightarrow> (Destroyed, srv, w)
                          | Some g \<Rightarrow>
    if route parts = Some ''spectate''
    then (case Game_addSpectator sid g (Socket_new sid (HEARTBEAT_INTERVAL_SECONDS srv) w) of
            (g1, w1) \<Rightarrow> (Attached sid, update_game gid g1 srv, w1))
    else if route parts = Some ''debug''
    then (Attached sid,
          update_game gid (g\<lparr>Game_logger := Logger_addDebugSocket sid (Game_logger g)\<rparr>) srv,
          Socket_new sid (HEARTBEAT_INTERVAL_SECONDS srv) w)
    else if route parts = Some ''players''
            \<and> (case playerId parts of None \<Rightarrow> False | Some i \<Rightarrow> i \<noteq> [])
            \<and> (case playerSecret parts of None \<Rightarrow> False | Some s \<Rightarrow> s \<noteq> [])
    then (case Game_getPlayer (the (playerId parts)) g of
            None \<Rightarrow> (Thrown ''TypeError'', srv, w)
          | Some p \<Rightarrow>
              (case Player_verifySecret (the (playerSecret parts)) p w of
                 (ok, w1) \<Rightarrow>
                   if \<not> ok then (Destroyed, srv, w1)
                   else if playerRoute parts = Some ''connect''
                   then (case Player_addGameSocket sid p
                                (Socket_new sid (HEARTBEAT_INTERVAL_SECONDS srv) w1) of
                           (p1, w2) \<Rightarrow>
                             (Attached sid,
                              update_game gid
                                (g\<lparr>players := obj_set (the (playerId parts)) p1 (players g)\<rparr>)
                                srv,
                              w2))
                   else if playerRoute parts = Some ''debug''
                   then (Attached sid,
                         update_game gid
                           (g\<lparr>players := obj_set (the (playerId parts))
                                 (p\<lparr>Player_logger := Logger_addDebugSocket sid (Player_logger p)\<rparr>)
                                 (players g)\<rparr>) srv,
                         Socket_new sid (HEARTBEAT_INTERVAL_SECONDS srv) w1)
                   else (Unattached, srv, w1)))
    else (Unattached, srv, w))))"


section \<open>Instruments and example states\<close>

text \<open>An owner that only counts how often \<^verbatim>\<open>onDisconnect\<close> is called.\<close>

definition counting :: "nat onDisconnect" where
  "counting now sid n w = (Suc n, w)"

text \<open>
  A sequence of \<^verbatim>\<open>addGameSocket\<close> and \<^verbatim>\<open>removeGameSocket\<close> calls on one player; a
  removal carries the reading of the clock at its time.
\<close>

datatype socket_call = AddGameSocket ref | RemoveGameSocket int ref

fun call :: "socket_call \<Rightarrow> player \<Rightarrow> world \<Rightarrow> player \<times> world" where
  "call (AddGameSocket s) p w = Player_addGameSocket s p w"
| "call (RemoveGameSocket now s) p w = Player_removeGameSocket now s p w"

fun calls :: "socket_call list \<Rightarrow> player \<Rightarrow> world \<Rightarrow> player \<times> world" where
  "calls [] p w = (p, w)"
| "calls (c # cs) p w = (case call c p w of (p1, w1) \<Rightarrow> calls cs p1 w1)"

fun removal_times :: "socket_call list \<Rightarrow> int list" where
  "removal_times [] = []"
| "removal_times (AddGameSocket s # cs) = removal_times cs"
| "removal_times (RemoveGameSocket now s # cs) = now # removal_times cs"

text \<open>
  The inputs the message handler of a game socket rejects, in the words of the
  specification: text that is not JSON, JSON that is not an object, and an object without
  a \<^verbatim>\<open>name\<close> field.  The argument is the result of \<^verbatim>\<open>JSON.parse\<close>.
\<close>

fun malformed :: "json option \<Rightarrow> bool" where
  "malformed None = True"
| "malformed (Some (JObj kvs)) = (map_of kvs ''name'' = None)"
| "malformed (Some v) = True"

text \<open>The texts of the three errors the message handler reports for such inputs.\<close>

definition rejections :: "piece list set" where
  "rejections =
     {[Lit ''Unable to deserialize socket message.''],
      [Lit ''Socket message must represent a JSON object.''],
      [Lit ''Commands must have a `name` property to be valid.'']}"

text \<open>
  Example states.  \<^verbatim>\<open>Math.random()\<close> always returns 0 in them, so every secret is
  \<^verbatim>\<open>AAAA...\<close>.
\<close>

definition empty_world :: world where
  "empty_world = \<lparr>sockets = [], console = []\<rparr>"

definition ex_rnd :: "nat \<Rightarrow> real" where
  "ex_rnd k = 0"

definition ex_configSanitizer :: "json option \<Rightarrow> json" where
  "ex_configSanitizer c = (case c of None \<Rightarrow> JObj [] | Some j \<Rightarrow> j)"

definition ex_createGameFn :: createGameFn where
  "ex_createGameFn protected' config' =
     Game_new ''b2b2'' ex_rnd ex_configSanitizer protected' config' None None"

text \<open>A game without players.\<close>

definition ex_game :: game where
  "ex_game = Game_new ''a1a1'' ex_rnd ex_configSanitizer False None None None"

text \<open>A player with one game socket, and a game for one player that holds this player.\<close>

definition ex_player :: player where
  "ex_player = fst (Player_addGameSocket ''5e5e'' (Player_new ''c3c3'' ex_rnd ''alice'') empty_world)"

definition ex_createPlayer :: createPlayer where
  "ex_createPlayer name g = Player_new ''d4d4'' ex_rnd name"

definition ex_playerAdded :: playerHook where
  "ex_playerAdded p g w = (g, w)"

definition ex_full_game :: game where
  "ex_full_game =
     (Game_new ''a1a1'' ex_rnd ex_configSanitizer False None (Some 1) None)
       \<lparr>players := [(''c3c3'', ex_player)]\<rparr>"

text \<open>
  A server for at most one game that holds one private game, and a server for at most two
  games that holds one public game with an active player.
\<close>

definition ex_server_private :: server where
  "ex_server_private = (GameServer_new (Some 1) None)\<lparr>privateGames := [(''a1a1'', ex_game)]\<rparr>"

definition ex_server_public :: server where
  "ex_server_public = (GameServer_new (Some 2) None)\<lparr>publicGames := [(''a1a1'', ex_full_game)]\<rparr>"

text \<open>A server with one public game without players.\<close>

definition ex_server_empty_game :: server where
  "ex_server_empty_game = (GameServer_new None None)\<lparr>publicGames := [(''a1a1'', ex_game)]\<rparr>"

text \<open>A query parser that knows one query.\<close>

definition ex_searchParam :: "string \<Rightarrow> string \<Rightarrow> string option" where
  "ex_searchParam q k =
     (if q = ''player_secret=s3cr3t'' \<and> k = ''player_secret'' then Some ''s3cr3t'' else None)"

text \<open>
  A world with an open game socket and an open debug socket, and a player that owns the
  first and whose logger is observed by the second.
\<close>

definition ex_world :: world where
  "ex_world = Socket_new ''dbdb'' 600 (Socket_new ''5e5e'' 600 empty_world)"

definition ex_observed_player :: player where
  "ex_observed_player =
     ex_player\<lparr>Player_logger := Logger_addDebugSocket ''dbdb'' (Player_logger ex_player)\<rparr>"

text \<open>A JSON parser that rejects every text, and a command handler that knows no command.\<close>

definition ex_parse_fails :: "string \<Rightarrow> json option" where
  "ex_parse_fails raw = None"

definition ex_handleCommand :: handleCommand where
  "ex_handleCommand command p w = (Inr False, p, w)"

definition ex_parse_ping :: "string \<Rightarrow> json option" where
  "ex_parse_ping raw = Some (JObj [(''name'', JStr ''ping'')])"


section \<open>Properties of the secret generator\<close>

lemma length_chars: "length chars = 62"
  by (simp add: chars_def)

lemma charAt_chars_unit:
  assumes "0 \<le> r" "r < 1"
  shows "\<exists>c. charAt chars \<lfloor>r * real (length chars)\<rfloor> = [c] \<and> c \<in> set chars"
proof -
  define k where "k = \<lfloor>r * real (length chars)\<rfloor>"
  have lo: "0 \<le> k" unfolding k_def using assms(1) by simp
  have "r * 62 < 62" using assms(2) by simp
  then have hi: "k < 62" unfolding k_def by (simp add: length_chars floor_less_iff)
  have "nat k < length chars" using lo hi by (simp add: length_chars)
  then have "chars ! nat k \<in> set chars" by (rule nth_mem)
  moreover have "charAt chars k = [chars ! nat k]"
    using lo hi by (simp add: charAt_def length_chars)
  ultimately show ?thesis unfolding k_def by blast
qed

lemma randomSecret_loop_spec:
  "(\<forall>k. 0 \<le> rnd k \<and> rnd k < 1) \<Longrightarrow>
   length (randomSecret_loop rnd len i str) = length str + nat (len - i)
   \<and> set (randomSecret_loop rnd len i str) \<subseteq> set str \<union> set chars"
proof (induction rnd len i str rule: randomSecret_loop.induct)
  case (1 rnd len i str)
  show ?case
  proof (cases "i < len")
    case False
    then show ?thesis by (simp add: randomSecret_loop.simps [of rnd len i str])
  next
    case True
    from "1.prems" have "0 \<le> rnd (nat i)" "rnd (nat i) < 1" by simp_all
    then obtain c where c: "charAt chars \<lfloor>rnd (nat i) * real (length chars)\<rfloor> = [c]"
      and mem: "c \<in> set chars"
      using charAt_chars_unit by blast
    have unfold: "randomSecret_loop rnd len i str = randomSecret_loop rnd len (i + 1) (str @ [c])"
      using True c by (simp add: randomSecret_loop.simps [of rnd len i str])
    have ih: "length (randomSecret_loop rnd len (i + 1) (str @ [c]))
                = length (str @ [c]) + nat (len - (i + 1))
            \<and> set (randomSecret_loop rnd len (i + 1) (str @ [c])) \<subseteq> set (str @ [c]) \<union> set chars"
      using "1.IH" [OF True] "1.prems" c by simp
    have "length (str @ [c]) + nat (len - (i + 1)) = length str + nat (len - i)"
      using True by simp
    moreover have "set (str @ [c]) \<union> set chars = set str \<union> set chars"
      using mem by auto
    ultimately show ?thesis using ih unfold by simp
  qed
qed

text \<open>
  C9. For every non-negative length (64 when the argument is omitted), and every run of
  \<^verbatim>\<open>Math.random()\<close> whose results lie in \<open>[0, 1)\<close>, \<^verbatim>\<open>randomSecret\<close> returns a string
  of exactly that many characters, each one from the 62-character alphabet
  \<open>[A-Za-z0-9]\<close>.  The function reads nothing but its argument and the random numbers and
  returns nothing but the string.
\<close>

theorem randomSecret_length_alphabet:
  assumes "\<forall>k. 0 \<le> rnd k \<and> rnd k < 1"
    and "case len of None \<Rightarrow> True | Some n \<Rightarrow> 0 \<le> n"
  shows "length (randomSecret rnd len) = nat (case len of None \<Rightarrow> 64 | Some n \<Rightarrow> n)
       \<and> set (randomSecret rnd len) \<subseteq> set chars
       \<and> length chars = 62 \<and> distinct chars"
proof -
  have "distinct chars" by (simp add: chars_def)
  then show ?thesis
    using randomSecret_loop_spec [OF assms(1), of "case len of None \<Rightarrow> 64 | Some n \<Rightarrow> n" 0 "[]"]
    by (simp add: randomSecret_def length_chars)
qed

theorem randomSecret_length_alphabet_witness:
  "(\<forall>k. (0::real) \<le> 1 / 2 \<and> (1::real) / 2 < 1)
   \<and> (case Some (3::int) of None \<Rightarrow> True | Some n \<Rightarrow> 0 \<le> n)
   \<and> randomSecret (\<lambda>k. 1 / 2) (Some 3) = ''fff''
   \<and> length (randomSecret (\<lambda>k. 1 / 2) (Some 3)) = 3
   \<and> set (randomSecret (\<lambda>k. 1 / 2) (Some 3)) \<subseteq> set chars"
  using randomSecret_length_alphabet [of "\<lambda>k. 1 / 2" "Some 3"]
  by (simp add: randomSecret_def randomSecret_loop.simps charAt_def chars_def)

section \<open>Facts about dictionaries and the socket store\<close>

lemma obj_get_obj_set: "obj_get (obj_set k v ob) k' = (if k' = k then Some v else obj_get ob k')"
  by (induction ob) (auto simp: obj_get_def)

lemma obj_set_not_empty: "obj_set k v ob \<noteq> []"
  by (cases ob) (auto split: if_splits)

lemma obj_get_on_socket:
  "obj_get (sockets (on_socket sid f w)) s
     = (if s = sid then map_option f (obj_get (sockets w) s) else obj_get (sockets w) s)"
proof -
  have "map_of (map (\<lambda>e. if fst e = sid then (fst e, f (snd e)) else e) xs) s
          = (if s = sid then map_option f (map_of xs s) else map_of xs s)" for xs
    by (induction xs) auto
  then show ?thesis by (simp add: on_socket_def obj_get_def)
qed

lemma console_on_socket: "console (on_socket sid f w) = console w"
  by (simp add: on_socket_def)

lemma broadcast_console: "console (broadcastDebugMessage m lg w) = console w"
proof -
  have "console (foldl (\<lambda>w' d. on_socket d (Socket_send (Debug m)) w') w ds) = console w" for ds
    by (induction ds arbitrary: w) (simp_all add: console_on_socket)
  then show ?thesis by (simp add: broadcastDebugMessage_def)
qed

lemma broadcast_other:
  assumes "s \<notin> set (obj_values (Logger_debugSockets lg))"
  shows "obj_get (sockets (broadcastDebugMessage m lg w)) s = obj_get (sockets w) s"
proof -
  have "s \<notin> set ds \<Longrightarrow>
        obj_get (sockets (foldl (\<lambda>w' d. on_socket d (Socket_send (Debug m)) w') w ds)) s
          = obj_get (sockets w) s" for ds
    by (induction ds arbitrary: w) (simp_all add: obj_get_on_socket)
  with assms show ?thesis by (simp add: broadcastDebugMessage_def)
qed

lemma broadcast_observer:
  assumes "distinct (obj_values (Logger_debugSockets lg))"
    and "s \<in> set (obj_values (Logger_debugSockets lg))"
  shows "obj_get (sockets (broadcastDebugMessage m lg w)) s
           = map_option (Socket_send (Debug m)) (obj_get (sockets w) s)"
proof -
  have other: "s \<notin> set ds \<Longrightarrow>
        obj_get (sockets (foldl (\<lambda>w' d. on_socket d (Socket_send (Debug m)) w') w ds)) s
          = obj_get (sockets w) s" for ds w
    by (induction ds arbitrary: w) (simp_all add: obj_get_on_socket)
  have "distinct ds \<Longrightarrow> s \<in> set ds \<Longrightarrow>
        obj_get (sockets (foldl (\<lambda>w' d. on_socket d (Socket_send (Debug m)) w') w ds)) s
          = map_option (Socket_send (Debug m)) (obj_get (sockets w) s)" for ds
  proof (induction ds arbitrary: w)
    case Nil
    then show ?case by simp
  next
    case (Cons d ds)
    show ?case
    proof (cases "s = d")
      case True
      with Cons.prems have nd: "s \<notin> set ds" by simp
      have "obj_get (sockets (foldl (\<lambda>w' d. on_socket d (Socket_send (Debug m)) w')
                (on_socket d (Socket_send (Debug m)) w) ds)) s
              = obj_get (sockets (on_socket d (Socket_send (Debug m)) w)) s"
        by (rule other [OF nd])
      also have "\<dots> = map_option (Socket_send (Debug m)) (obj_get (sockets w) s)"
        using True by (simp add: obj_get_on_socket)
      finally show ?thesis by simp
    next
      case False
      with Cons.prems have "distinct ds" "s \<in> set ds" by simp_all
      then show ?thesis using False Cons.IH by (simp add: obj_get_on_socket)
    qed
  qed
  with assms show ?thesis by (simp add: broadcastDebugMessage_def)
qed

section \<open>Facts about the example states\<close>

lemma ex_game_fields:
  "players ex_game = []" "MAX_INACTIVE_TIME_MINUTES ex_game = 10" "Game_id ex_game = ''a1a1''"
  "protected ex_game = False"
  by (simp_all add: ex_game_def Game_new_def Let_def DEFAULT_MAX_INACTIVE_MINUTES_def)

lemma ex_createGameFn_fields:
  "Game_id (ex_createGameFn b c) = ''b2b2''" "protected (ex_createGameFn b c) = b"
  "Game_secret (ex_createGameFn b c) = randomSecret ex_rnd None"
  by (simp_all add: ex_createGameFn_def Game_new_def Let_def)

lemma ex_player_fields:
  "gameSockets ex_player = [(''5e5e'', ''5e5e'')]" "inactiveSince ex_player = 0"
  "Player_id ex_player = ''c3c3''" "Player_logger ex_player = Logger_new"
  "Player_debugSockets ex_player = []"
  by (simp_all add: ex_player_def Player_addGameSocket_def Player_new_def)

lemma ex_full_game_fields:
  "players ex_full_game = [(''c3c3'', ex_player)]" "MAX_PLAYER_COUNT ex_full_game = 1"
  "MAX_INACTIVE_TIME_MINUTES ex_full_game = 10"
  by (simp_all add: ex_full_game_def Game_new_def Let_def DEFAULT_MAX_INACTIVE_MINUTES_def)

lemma ex_world_sockets:
  "sockets ex_world =
     [(''5e5e'', \<lparr>Socket_id = ''5e5e'', Socket_HEARTBEAT_INTERVAL_SECONDS = 600,
          connectionAlive = True, heartbeatInterval = Some True, ws = OPEN,
          sent = [], pings = 0\<rparr>),
      (''dbdb'', \<lparr>Socket_id = ''dbdb'', Socket_HEARTBEAT_INTERVAL_SECONDS = 600,
          connectionAlive = True, heartbeatInterval = Some True, ws = OPEN,
          sent = [], pings = 0\<rparr>)]"
  "console ex_world = []"
  by (simp_all add: ex_world_def Socket_new_def empty_world_def)

section \<open>Adding a player to a full game\<close>

text \<open>
  C6. For every game that is full (\<^verbatim>\<open>full()\<close> returns true, which is the case exactly
  when the player count is at least \<open>MAX_PLAYER_COUNT\<close>), \<^verbatim>\<open>addPlayer\<close> throws
  \<^verbatim>\<open>"The game is full."\<close>, whatever the factory \<^verbatim>\<open>createPlayer\<close> would have created,
  and leaves the game, with its map of players and its player count, and the world as
  they were.
\<close>

theorem addPlayer_full_fails:
  assumes "Game_full g"
  shows "Game_addPlayer createPlayer playerAdded name g w = (Inl ''The game is full.'', g, w)
       \<and> Game_getPlayerCount (fst (snd (Game_addPlayer createPlayer playerAdded name g w)))
           = Game_getPlayerCount g
       \<and> players (fst (snd (Game_addPlayer createPlayer playerAdded name g w))) = players g
       \<and> (Game_full g \<longleftrightarrow> MAX_PLAYER_COUNT g \<le> Game_getPlayerCount g)"
  using assms by (simp add: Game_addPlayer_def Game_full_def)

theorem addPlayer_full_fails_witness:
  "Game_full ex_full_game
   \<and> Game_getPlayerCount ex_full_game = 1
   \<and> Game_addPlayer ex_createPlayer ex_playerAdded ''bob'' ex_full_game empty_world
       = (Inl ''The game is full.'', ex_full_game, empty_world)"
proof -
  have full: "Game_full ex_full_game"
    by (simp add: Game_full_def Game_getPlayerCount_def obj_keys_def ex_full_game_fields)
  have "Game_getPlayerCount ex_full_game = 1"
    by (simp add: Game_getPlayerCount_def obj_keys_def ex_full_game_fields)
  then show ?thesis
    using full addPlayer_full_fails [OF full, of ex_createPlayer ex_playerAdded "''bob''" empty_world]
    by simp
qed
section \<open>The result of creating a game\<close>

lemma ex_rnd_unit: "\<forall>k. 0 \<le> ex_rnd k \<and> ex_rnd k < 1"
  by (simp add: ex_rnd_def)

lemma randomSecret_default_length:
  assumes "\<forall>k. 0 \<le> rnd k \<and> rnd k < 1"
  shows "length (randomSecret rnd None) = 64"
  using randomSecret_loop_spec [OF assms, of 64 0 "[]"] by (simp add: randomSecret_def)

text \<open>
  C7, as stated, fails: a game created unprotected has a join secret all the same (the
  field \<^verbatim>\<open>secret\<close> of every \<^verbatim>\<open>Game\<close> is initialised with \<^verbatim>\<open>randomSecret()\<close>), and
  \<^verbatim>\<open>createGame\<close> returns it.
\<close>

theorem createGame_unprotected_returns_secret:
  "protected (ex_createGameFn False None) = False
   \<and> fst (createGame ex_createGameFn 1000 True False None (GameServer_new None None) empty_world)
       = Inr \<lparr>gameId = ''b2b2'', joinSecret = Some (randomSecret ex_rnd None)\<rparr>
   \<and> length (randomSecret ex_rnd None) = 64"
  by (simp add: createGame_def deleteInactive_def GameServer_new_def maxGamesCountReached_def
      obj_keys_def DEFAULT_GAMES_COUNT_def ex_createGameFn_fields
      randomSecret_default_length [OF ex_rnd_unit])

text \<open>
  C7, amended. For every successful call of \<^verbatim>\<open>createGame\<close>, the result contains the id
  of the new game and the join secret of the new game, whether the game was created
  protected or not; the game the factory returned is stored under that id, in the public
  map for a public game and in the private map otherwise.
\<close>

theorem createGame_result:
  assumes "createGame createGameFn now public' protected' config' srv w = (Inr r, srv', w')"
  shows "gameId r = Game_id (createGameFn protected' config')
       \<and> joinSecret r = Some (Game_secret (createGameFn protected' config'))
       \<and> obj_get (if public' then publicGames srv' else privateGames srv') (gameId r)
           = Some (createGameFn protected' config')"
  using assms
  by (auto simp: createGame_def Let_def obj_get_obj_set split: prod.splits if_splits)

theorem createGame_result_witness:
  "createGame ex_createGameFn 1000 False True None (GameServer_new None None) empty_world
     = (Inr \<lparr>gameId = ''b2b2'', joinSecret = Some (randomSecret ex_rnd None)\<rparr>,
        (GameServer_new None None)\<lparr>privateGames := [(''b2b2'', ex_createGameFn True None)]\<rparr>,
        Logger_infoStdout
          [Lit ''Created new private game '', Lit ''b2b2'', Lit ''-****-****-****-************.'']
          None Logger_new empty_world)
   \<and> protected (ex_createGameFn True None)
   \<and> obj_get (privateGames ((GameServer_new None None)
         \<lparr>privateGames := [(''b2b2'', ex_createGameFn True None)]\<rparr>)) ''b2b2''
       = Some (ex_createGameFn True None)"
proof -
  have run: "createGame ex_createGameFn 1000 False True None (GameServer_new None None) empty_world
     = (Inr \<lparr>gameId = ''b2b2'', joinSecret = Some (randomSecret ex_rnd None)\<rparr>,
        (GameServer_new None None)\<lparr>privateGames := [(''b2b2'', ex_createGameFn True None)]\<rparr>,
        Logger_infoStdout
          [Lit ''Created new private game '', Lit ''b2b2'', Lit ''-****-****-****-************.'']
          None Logger_new empty_world)"
    by (simp add: createGame_def deleteInactive_def GameServer_new_def maxGamesCountReached_def
        obj_keys_def DEFAULT_GAMES_COUNT_def ex_createGameFn_fields Let_def)
  show ?thesis
    using run createGame_result [OF run] by (simp add: ex_createGameFn_fields)
qed
section \<open>Game sockets and the inactivity time stamp of a player\<close>

lemma addGameSocket_fields:
  "inactiveSince (fst (Player_addGameSocket s p w)) = inactiveSince p"
  "gameSockets (fst (Player_addGameSocket s p w)) = obj_set s s (gameSockets p)"
  by (simp_all add: Player_addGameSocket_def)

lemma removeGameSocket_fields:
  "gameSockets (fst (Player_removeGameSocket now s p w)) = obj_delete s (gameSockets p)"
  "inactiveSince (fst (Player_removeGameSocket now s p w))
     = (if obj_delete s (gameSockets p) = [] then now else inactiveSince p)"
  by (simp_all add: Player_removeGameSocket_def Let_def obj_keys_def)

lemma call_establishes:
  assumes "\<forall>t \<in> set (removal_times [c]). t \<noteq> 0"
  shows "gameSockets (fst (call c p w)) = [] \<longrightarrow> inactiveSince (fst (call c p w)) \<noteq> 0"
  using assms
  by (cases c) (simp_all add: addGameSocket_fields removeGameSocket_fields obj_set_not_empty)

lemma calls_snoc: "calls (cs @ [c]) p w = (case calls cs p w of (p1, w1) \<Rightarrow> call c p1 w1)"
  by (induction cs arbitrary: p w) (auto split: prod.splits)

lemma removal_times_append: "removal_times (cs @ ds) = removal_times cs @ removal_times ds"
  by (induction cs rule: removal_times.induct) simp_all

text \<open>
  C2, as stated, fails: a new player owns no game connection and has
  \<open>inactiveSince = 0\<close>, and \<^verbatim>\<open>addGameSocket\<close> does not reset \<open>inactiveSince\<close>: after
  a disconnect at time 5 and a reconnect the player owns a connection and
  \<open>inactiveSince\<close> is still 5.
\<close>

theorem inactiveSince_iff_counterexample:
  "inactiveSince (Player_new ''c3c3'' ex_rnd ''alice'') = 0
   \<and> gameSockets (Player_new ''c3c3'' ex_rnd ''alice'') = []
   \<and> inactiveSince (fst (calls [RemoveGameSocket 5 ''5e5e'', AddGameSocket ''5e5e'']
                            (Player_new ''c3c3'' ex_rnd ''alice'') empty_world)) = 5
   \<and> gameSockets (fst (calls [RemoveGameSocket 5 ''5e5e'', AddGameSocket ''5e5e'']
                            (Player_new ''c3c3'' ex_rnd ''alice'') empty_world))
       = [(''5e5e'', ''5e5e'')]"
  by (simp add: Player_new_def Player_removeGameSocket_def Player_addGameSocket_def
      obj_delete_def obj_keys_def Let_def)

text \<open>
  C2, amended. \<^verbatim>\<open>addGameSocket\<close> registers the connection under the player and leaves
  \<open>inactiveSince\<close> as it is; \<^verbatim>\<open>removeGameSocket\<close> sets \<open>inactiveSince\<close> to the
  current time when it leaves the player without a game connection, and leaves it as it
  is otherwise.  Hence for every player and every non-empty sequence of
  \<^verbatim>\<open>addGameSocket\<close>/\<^verbatim>\<open>removeGameSocket\<close> calls, made at nonzero readings of the clock,
  a player that owns zero game connections afterwards has a nonzero \<open>inactiveSince\<close>.
  (The converse does not hold, and nothing is said about a player before its first call.)
\<close>

theorem inactiveSince_after_calls:
  assumes "cs \<noteq> []" and "\<forall>t \<in> set (removal_times cs). t \<noteq> 0"
  shows "(gameSockets (fst (calls cs p w)) = [] \<longrightarrow> inactiveSince (fst (calls cs p w)) \<noteq> 0)
       \<and> inactiveSince (fst (Player_addGameSocket s p w)) = inactiveSince p
       \<and> obj_get (gameSockets (fst (Player_addGameSocket s p w))) s = Some s
       \<and> inactiveSince (fst (Player_removeGameSocket now s p w))
           = (if gameSockets (fst (Player_removeGameSocket now s p w)) = [] then now
              else inactiveSince p)"
proof -
  from assms(1) obtain ds c where cs: "cs = ds @ [c]"
    by (cases cs rule: rev_cases) auto
  from assms(2) have nz: "\<forall>t \<in> set (removal_times [c]). t \<noteq> 0"
    by (simp add: cs removal_times_append)
  obtain p1 w1 where mid: "calls ds p w = (p1, w1)" by (cases "calls ds p w")
  have "calls cs p w = call c p1 w1" by (simp add: cs calls_snoc mid)
  then have "gameSockets (fst (calls cs p w)) = [] \<longrightarrow> inactiveSince (fst (calls cs p w)) \<noteq> 0"
    using call_establishes [OF nz, of p1 w1] by simp
  then show ?thesis
    by (simp add: addGameSocket_fields removeGameSocket_fields obj_get_obj_set)
qed

theorem inactiveSince_after_calls_witness:
  "[AddGameSocket ''5e5e'', RemoveGameSocket 5 ''5e5e''] \<noteq> []
   \<and> removal_times [AddGameSocket ''5e5e'', RemoveGameSocket 5 ''5e5e''] = [5]
   \<and> gameSockets (fst (calls [AddGameSocket ''5e5e'', RemoveGameSocket 5 ''5e5e'']
                         (Player_new ''c3c3'' ex_rnd ''alice'') empty_world)) = []
   \<and> inactiveSince (fst (calls [AddGameSocket ''5e5e'', RemoveGameSocket 5 ''5e5e'']
                         (Player_new ''c3c3'' ex_rnd ''alice'') empty_world)) \<noteq> 0
   \<and> inactiveSince (fst (Player_removeGameSocket 7 ''5e5e'' ex_player empty_world)) = 7"
proof -
  have nonempty: "[AddGameSocket ''5e5e'', RemoveGameSocket 5 ''5e5e''] \<noteq> []" by simp
  have times: "\<forall>t \<in> set (removal_times [AddGameSocket ''5e5e'', RemoveGameSocket 5 ''5e5e'']). t \<noteq> 0"
    by simp
  have drained: "gameSockets (fst (calls [AddGameSocket ''5e5e'', RemoveGameSocket 5 ''5e5e'']
                         (Player_new ''c3c3'' ex_rnd ''alice'') empty_world)) = []"
    by (simp add: Player_new_def Player_removeGameSocket_def Player_addGameSocket_def
        obj_delete_def obj_keys_def Let_def)
  have last: "gameSockets (fst (Player_removeGameSocket 7 ''5e5e'' ex_player empty_world)) = []"
    by (simp add: removeGameSocket_fields ex_player_fields obj_delete_def)
  show ?thesis
    using inactiveSince_after_calls [OF nonempty times,
        of "Player_new ''c3c3'' ex_rnd ''alice''" empty_world "''5e5e''" 7]
      inactiveSince_after_calls [OF nonempty times, of ex_player empty_world "''5e5e''" 7]
      drained last
    by simp
qed

text \<open>
  C10. Every call of \<^verbatim>\<open>removeGameSocket\<close> that leaves the player without a registered
  game connection overwrites \<open>inactiveSince\<close> with the current time, whether the socket
  was registered or not.  A second notification for the same socket at a later time \<open>tb\<close>
  therefore moves the time stamp from \<open>ta\<close> to \<open>tb\<close>, and a game whose only player
  this is stays active until \<open>tb\<close>, not \<open>ta\<close>, is further back than the inactivity
  window.  The heartbeat of a game socket produces such a second notification: after a
  missed pong the tick notifies the player, and the \<^verbatim>\<open>close\<close> event of the terminated
  websocket notifies it again.
\<close>

theorem removeGameSocket_overwrites_inactiveSince:
  assumes "obj_delete s (gameSockets p) = []"
  shows "inactiveSince (fst (Player_removeGameSocket ta s p w)) = ta
       \<and> gameSockets (fst (Player_removeGameSocket ta s p w)) = []
       \<and> inactiveSince (fst (Player_removeGameSocket tb s
                                (fst (Player_removeGameSocket ta s p w)) wa)) = tb
       \<and> fst (Game_active now
                (g\<lparr>players := [(k, fst (Player_removeGameSocket tb s
                                         (fst (Player_removeGameSocket ta s p w)) wa))]\<rparr>) wb)
           = (tb > now - MAX_INACTIVE_TIME_MINUTES g * 60 * 1000)
       \<and> fst (Game_active now
                (g\<lparr>players := [(k, fst (Player_removeGameSocket ta s p w))]\<rparr>) wb)
           = (ta > now - MAX_INACTIVE_TIME_MINUTES g * 60 * 1000)"
  using assms
  by (simp add: removeGameSocket_fields obj_delete_def Game_active_def obj_values_def
      Player_active_def obj_keys_def)

theorem removeGameSocket_overwrites_inactiveSince_witness:
  "obj_delete ''5e5e'' (gameSockets ex_player) = []
   \<and> inactiveSince (fst (Player_removeGameSocket 2000 ''5e5e'' ex_player ex_world)) = 2000
   \<and> inactiveSince (fst (Player_removeGameSocket 3000 ''5e5e''
        (fst (Player_removeGameSocket 2000 ''5e5e'' ex_player ex_world)) ex_world)) = 3000
   \<and> fst (Game_active 602000
        (ex_full_game\<lparr>players := [(''c3c3'', fst (Player_removeGameSocket 3000 ''5e5e''
           (fst (Player_removeGameSocket 2000 ''5e5e'' ex_player ex_world)) ex_world))]\<rparr>)
        ex_world)
   \<and> \<not> fst (Game_active 602000
        (ex_full_game\<lparr>players :=
           [(''c3c3'', fst (Player_removeGameSocket 2000 ''5e5e'' ex_player ex_world))]\<rparr>)
        ex_world)
   \<and> map_option (\<lambda>st. inactiveSince (fst st))
        (run GameSocket_onDisconnect ''5e5e'' [(1000, Tick), (2000, Tick)] (ex_player, ex_world))
       = Some 2000
   \<and> map_option (\<lambda>st. inactiveSince (fst st))
        (run GameSocket_onDisconnect ''5e5e'' [(1000, Tick), (2000, Tick), (3000, Close)]
           (ex_player, ex_world))
       = Some 3000"
proof -
  have last: "obj_delete ''5e5e'' (gameSockets ex_player) = []"
    by (simp add: ex_player_fields obj_delete_def)
  have timeout: "map_option (\<lambda>st. inactiveSince (fst st))
        (run GameSocket_onDisconnect ''5e5e'' [(1000, Tick), (2000, Tick)] (ex_player, ex_world))
       = Some 2000
   \<and> map_option (\<lambda>st. inactiveSince (fst st))
        (run GameSocket_onDisconnect ''5e5e'' [(1000, Tick), (2000, Tick), (3000, Close)]
           (ex_player, ex_world))
       = Some 3000"
    by (simp add: step_def heartbeat_handler_def close_handler_def GameSocket_onDisconnect_def
        Player_removeGameSocket_def Logger_info_def broadcastDebugMessage_def on_socket_def
        obj_get_def obj_values_def obj_keys_def obj_delete_def Socket_terminate_def ws_ping_def
        Let_def Logger_new_def ex_player_fields ex_world_sockets)
  show ?thesis
    using last timeout
      removeGameSocket_overwrites_inactiveSince [OF last,
        where ta = 2000 and w = ex_world and tb = 3000 and wa = ex_world and now = 602000
          and g = ex_full_game and k = "''c3c3''" and wb = ex_world]
    by (simp add: ex_full_game_fields)
qed
section \<open>The heartbeat of a connection\<close>

text \<open>
  C4 fails on the code.  A connection that answers no ping: the first tick sends the ping,
  the second tick finds \<open>connectionAlive\<close> false, terminates the websocket and calls
  \<^verbatim>\<open>onDisconnect\<close>; the \<^verbatim>\<open>close\<close> event of the terminated websocket then calls
  \<^verbatim>\<open>onDisconnect\<close> again.  The owner is notified twice in the life of the connection.
\<close>

theorem pong_timeout_notifies_twice:
  "run counting ''5e5e'' [(1000, Tick), (2000, Tick)] (0, ex_world)
     = Some (1, on_socket ''5e5e''
                  (\<lambda>s. s\<lparr>connectionAlive := False, ws := CLOSING, pings := 1\<rparr>) ex_world)
   \<and> (case run counting ''5e5e'' [(1000, Tick), (2000, Tick), (3000, Close)] (0, ex_world) of
        None \<Rightarrow> False
      | Some (n, w) \<Rightarrow> n = 2 \<and> finished ''5e5e'' w)"
  by (simp add: step_def counting_def heartbeat_handler_def close_handler_def on_socket_def
      obj_get_def Socket_terminate_def ws_ping_def finished_def ex_world_sockets)

section \<open>The limit on the number of games\<close>

lemma ex_server_private_fields:
  "publicGames ex_server_private = []" "privateGames ex_server_private = [(''a1a1'', ex_game)]"
  "MAX_GAMES_COUNT ex_server_private = 1"
  by (simp_all add: ex_server_private_def GameServer_new_def Let_def)

lemma ex_server_public_fields:
  "publicGames ex_server_public = [(''a1a1'', ex_full_game)]" "privateGames ex_server_public = []"
  "MAX_GAMES_COUNT ex_server_public = 2"
  by (simp_all add: ex_server_public_def GameServer_new_def Let_def)

text \<open>
  C1 fails on the code.  \<^verbatim>\<open>maxGamesCountReached\<close> adds the number of public games to
  itself and never counts the private games.  A server for one game that holds one private
  game is at its limit, yet the test is false and \<^verbatim>\<open>createGame\<close> adds a second game;
  a server for two games that holds one public game (with an active player) is below its
  limit, yet the test is true and \<^verbatim>\<open>createGame\<close> throws.
\<close>

theorem maxGamesCountReached_ignores_private_games:
  "int (length (obj_keys (publicGames ex_server_private)))
     + int (length (obj_keys (privateGames ex_server_private)))
     = MAX_GAMES_COUNT ex_server_private
   \<and> \<not> maxGamesCountReached ex_server_private
   \<and> (case createGame ex_createGameFn 1000 False False None ex_server_private empty_world of
        (Inl e, srv, w) \<Rightarrow> False
      | (Inr r, srv, w) \<Rightarrow>
          obj_keys (privateGames srv) = [''a1a1'', ''b2b2''] \<and> MAX_GAMES_COUNT srv = 1)
   \<and> int (length (obj_keys (publicGames ex_server_public)))
       + int (length (obj_keys (privateGames ex_server_public))) = 1
   \<and> MAX_GAMES_COUNT ex_server_public = 2
   \<and> maxGamesCountReached ex_server_public
   \<and> fst (createGame ex_createGameFn 1000 False False None ex_server_public empty_world)
       = Inl ''The maximum number of games for this server has been reached.''"
  by (simp add: maxGamesCountReached_def obj_keys_def createGame_def deleteInactive_def
      ex_server_private_fields ex_server_public_fields ex_createGameFn_fields
      ex_full_game_fields ex_player_fields Game_active_def obj_values_def Player_active_def
      Let_def)

section \<open>The inactivity sweep\<close>

lemma Game_active_loop_result:
  "fst (Game_active_loop now m ps a w)
     = (a \<or> (\<exists>p \<in> set ps. Player_active p \<or> inactiveSince p > now - m * 60 * 1000))"
  by (induction ps arbitrary: a w) auto

lemma Game_active_iff:
  "fst (Game_active now g w)
     = (\<exists>p \<in> set (obj_values (players g)).
          Player_active p \<or> inactiveSince p > now - MAX_INACTIVE_TIME_MINUTES g * 60 * 1000)"
  by (simp add: Game_active_def Game_active_loop_result)

lemma Game_active_world: "fst (Game_active now g w) = fst (Game_active now g w')"
  by (simp add: Game_active_iff)

lemma filter_obj_delete:
  "filter (\<lambda>x. fst x \<notin> S) (obj_delete k xs) = filter (\<lambda>x. fst x \<notin> insert k S) xs"
  by (induction xs) (auto simp: obj_delete_def)

text \<open>
  The loop of the sweep removes, from both maps, the ids of the entries it finds inactive.
\<close>

lemma deleteInactive_loop_maps:
  "publicGames (fst (deleteInactive_loop now es srv w deleted))
     = filter (\<lambda>e. fst e \<notin> fst ` set (filter (\<lambda>e. \<not> fst (Game_active now (snd e) empty_world)) es))
         (publicGames srv)
   \<and> privateGames (fst (deleteInactive_loop now es srv w deleted))
     = filter (\<lambda>e. fst e \<notin> fst ` set (filter (\<lambda>e. \<not> fst (Game_active now (snd e) empty_world)) es))
         (privateGames srv)"
proof (induction es arbitrary: srv w deleted)
  case Nil
  then show ?case by simp
next
  case (Cons e es)
  obtain k g where e: "e = (k, g)" by (cases e)
  obtain a w1 where act: "Game_active now g w = (a, w1)" by (cases "Game_active now g w")
  have a: "a = fst (Game_active now g empty_world)"
    using act Game_active_world [of now g w empty_world] by simp
  define D where "D = fst ` set (filter (\<lambda>e. \<not> fst (Game_active now (snd e) empty_world)) es)"
  define D' where
    "D' = fst ` set (filter (\<lambda>e. \<not> fst (Game_active now (snd e) empty_world)) (e # es))"
  show ?case
  proof (cases a)
    case True
    then have same: "D' = D"
      using a by (simp add: D_def D'_def e)
    have unfold: "deleteInactive_loop now (e # es) srv w deleted
            = deleteInactive_loop now es srv w1 deleted"
      using True act e by simp
    have ih: "publicGames (fst (deleteInactive_loop now es srv w1 deleted))
                = filter (\<lambda>e. fst e \<notin> D) (publicGames srv)
            \<and> privateGames (fst (deleteInactive_loop now es srv w1 deleted))
                = filter (\<lambda>e. fst e \<notin> D) (privateGames srv)"
      unfolding D_def by (rule Cons.IH)
    have "publicGames (fst (deleteInactive_loop now (e # es) srv w deleted))
                = filter (\<lambda>e. fst e \<notin> D') (publicGames srv)
            \<and> privateGames (fst (deleteInactive_loop now (e # es) srv w deleted))
                = filter (\<lambda>e. fst e \<notin> D') (privateGames srv)"
      unfolding unfold same by (rule ih)
    then show ?thesis unfolding D'_def .
  next
    case False
    then have more: "D' = insert k D"
      using a by (simp add: D_def D'_def e)
    let ?srv = "srv\<lparr>publicGames := obj_delete k (publicGames srv),
                      privateGames := obj_delete k (privateGames srv)\<rparr>"
    have unfold: "deleteInactive_loop now (e # es) srv w deleted
            = deleteInactive_loop now es ?srv (Game_terminate g w1) (deleted @ [k])"
      using False act e by simp
    have ih: "publicGames (fst (deleteInactive_loop now es ?srv (Game_terminate g w1) (deleted @ [k])))
                = filter (\<lambda>e. fst e \<notin> D) (publicGames ?srv)
            \<and> privateGames (fst (deleteInactive_loop now es ?srv (Game_terminate g w1) (deleted @ [k])))
                = filter (\<lambda>e. fst e \<notin> D) (privateGames ?srv)"
      unfolding D_def by (rule Cons.IH)
    have pub: "filter (\<lambda>e. fst e \<notin> D) (publicGames ?srv) = filter (\<lambda>e. fst e \<notin> D') (publicGames srv)"
      by (simp add: more filter_obj_delete)
    have priv: "filter (\<lambda>e. fst e \<notin> D) (privateGames ?srv) = filter (\<lambda>e. fst e \<notin> D') (privateGames srv)"
      by (simp add: more filter_obj_delete)
    have "publicGames (fst (deleteInactive_loop now (e # es) srv w deleted))
                = filter (\<lambda>e. fst e \<notin> D') (publicGames srv)
            \<and> privateGames (fst (deleteInactive_loop now (e # es) srv w deleted))
                = filter (\<lambda>e. fst e \<notin> D') (privateGames srv)"
      unfolding unfold pub [symmetric] priv [symmetric] by (rule ih)
    then show ?thesis unfolding D'_def .
  qed
qed

text \<open>
  The sweep on the public games: when their ids are distinct, exactly the public games
  whose \<^verbatim>\<open>active()\<close> is false are removed.
\<close>

lemma deleteInactive_publicGames:
  assumes "distinct (obj_keys (publicGames srv))"
  shows "publicGames (fst (deleteInactive now srv w))
           = filter (\<lambda>e. fst (Game_active now (snd e) empty_world)) (publicGames srv)"
proof -
  let ?dead = "\<lambda>e. \<not> fst (Game_active now (snd e) empty_world)"
  have d: "distinct (map fst (publicGames srv))" using assms by (simp add: obj_keys_def)
  have "fst (deleteInactive now srv w) = fst (deleteInactive_loop now (publicGames srv) srv w [])"
    by (simp add: deleteInactive_def split: prod.splits)
  then have "publicGames (fst (deleteInactive now srv w))
          = filter (\<lambda>e. fst e \<notin> fst ` set (filter ?dead (publicGames srv))) (publicGames srv)"
    by (simp only: deleteInactive_loop_maps)
  also have "\<dots> = filter (\<lambda>e. fst (Game_active now (snd e) empty_world)) (publicGames srv)"
  proof (rule filter_cong [OF refl])
    fix e assume mem: "e \<in> set (publicGames srv)"
    show "(fst e \<notin> fst ` set (filter ?dead (publicGames srv)))
            = fst (Game_active now (snd e) empty_world)"
    proof
      assume out: "fst e \<notin> fst ` set (filter ?dead (publicGames srv))"
      show "fst (Game_active now (snd e) empty_world)"
      proof (rule ccontr)
        assume "\<not> fst (Game_active now (snd e) empty_world)"
        with mem have "e \<in> set (filter ?dead (publicGames srv))" by simp
        then have "fst e \<in> fst ` set (filter ?dead (publicGames srv))" by (rule imageI)
        with out show False by simp
      qed
    next
      assume live: "fst (Game_active now (snd e) empty_world)"
      show "fst e \<notin> fst ` set (filter ?dead (publicGames srv))"
      proof
        assume "fst e \<in> fst ` set (filter ?dead (publicGames srv))"
        then obtain e' where e': "e' \<in> set (publicGames srv)" "?dead e'" "fst e' = fst e"
          by auto
        have "e' = e"
          using d e'(1) mem e'(3) by (simp add: distinct_map inj_on_def)
        with e'(2) live show False by simp
      qed
    qed
  qed
  finally show ?thesis .
qed

text \<open>
  C3 fails on the code.  The loop of \<^verbatim>\<open>deleteInactive\<close> runs over the public games
  only.  A private game without players is inactive, and the sweep leaves it, and the
  whole server, as it was.
\<close>

theorem deleteInactive_skips_private_games:
  "fst (Game_active 1000 ex_game empty_world) = False
   \<and> obj_get (privateGames ex_server_private) ''a1a1'' = Some ex_game
   \<and> deleteInactive 1000 ex_server_private empty_world = (ex_server_private, empty_world)"
  by (simp add: Game_active_def obj_values_def deleteInactive_def obj_get_def
      ex_game_fields ex_server_private_fields)

section \<open>Upgrade requests that cannot be resolved\<close>

lemma ex_server_empty_game_fields:
  "publicGames ex_server_empty_game = [(''a1a1'', ex_game)]"
  "privateGames ex_server_empty_game = []"
  by (simp_all add: ex_server_empty_game_def GameServer_new_def Let_def)

text \<open>
  The failures the callback does handle: a missing URL, a URL the regular expression
  rejects, an unknown game and a wrong player secret all end in \<^verbatim>\<open>socket.destroy()\<close>
  with the server as it was and no socket created.
\<close>

lemma handleUpgrades_no_url: "handleUpgrades searchParam sid None srv w = (Destroyed, srv, w)"
  by (simp add: handleUpgrades_def)

lemma handleUpgrades_no_match:
  assumes "u \<noteq> ''/api/debug''" and "pathMatcher_exec u = None"
  shows "handleUpgrades searchParam sid (Some u) srv w = (Destroyed, srv, w)"
  using assms by (simp add: handleUpgrades_def deserializeURL_def Let_def)

lemma handleUpgrades_unknown_game:
  assumes "u \<noteq> ''/api/debug''" and "pathMatcher_exec u = Some groups"
    and "getGame (g_gameId groups) srv = None"
  shows "handleUpgrades searchParam sid (Some u) srv w = (Destroyed, srv, w)"
  using assms by (simp add: handleUpgrades_def deserializeURL_def Let_def)

lemma handleUpgrades_wrong_secret:
  assumes "u \<noteq> ''/api/debug''" and "u \<noteq> []" and "pathMatcher_exec u = Some groups"
    and "g_gameId groups \<noteq> []" and "getGame (g_gameId groups) srv = Some g"
    and "g_route groups = ''players''" and "g_player groups = Some (pid, proute)" and "pid \<noteq> []"
    and "searchParam (case g_query groups of None \<Rightarrow> [] | Some q \<Rightarrow> q) ''player_secret''
           = Some secret"
    and "secret \<noteq> []" and "Game_getPlayer pid g = Some p" and "Player_secret p \<noteq> secret"
  shows "handleUpgrades searchParam sid (Some u) srv w
           = (Destroyed, srv, snd (Player_verifySecret secret p w))"
  using assms
  by (simp add: handleUpgrades_def deserializeURL_def Let_def Player_verifySecret_def
      split: prod.splits)

text \<open>
  C5 fails on the code.  For a player id the game does not know, \<^verbatim>\<open>getPlayer\<close> returns
  \<^verbatim>\<open>undefined\<close> and the call of \<^verbatim>\<open>verifySecret\<close> on it throws a \<^verbatim>\<open>TypeError\<close> that
  nothing catches; for a route that is none of \<^verbatim>\<open>spectate\<close>, \<^verbatim>\<open>debug\<close> and
  \<^verbatim>\<open>players\<close> the callback returns without attaching the websocket and without
  destroying the connection.
\<close>

theorem handleUpgrades_unknown_player_throws:
  "getGame ''a1a1'' ex_server_empty_game = Some ex_game
   \<and> Game_getPlayer ''c3c3'' ex_game = None
   \<and> handleUpgrades ex_searchParam ''5e5e''
        (Some ''/api/games/a1a1/players/c3c3/connect?player_secret=s3cr3t'')
        ex_server_empty_game empty_world
       = (Thrown ''TypeError'', ex_server_empty_game, empty_world)
   \<and> handleUpgrades ex_searchParam ''5e5e'' (Some ''/api/games/a1a1/join'')
        ex_server_empty_game empty_world
       = (Unattached, ex_server_empty_game, empty_world)"
  by (simp add: handleUpgrades_def deserializeURL_def pathMatcher_exec_def Let_def
      hex_or_dash_def word_char_def dot_char_def ex_searchParam_def getGame_def
      Game_getPlayer_def obj_get_def ex_server_empty_game_fields ex_game_fields)
section \<open>Messages on a game socket\<close>

lemma ex_observed_player_fields:
  "Player_logger ex_observed_player = \<lparr>Logger_debugSockets = [(''dbdb'', ''dbdb'')]\<rparr>"
  "gameSockets ex_observed_player = [(''5e5e'', ''5e5e'')]"
  by (simp_all add: ex_observed_player_def ex_player_fields Logger_addDebugSocket_def
      Logger_new_def)

text \<open>
  What the handler does with a rejected message: it reports one of three errors to the
  logger of the player.
\<close>

lemma handleMessage_malformed:
  assumes "malformed (JSON_parse raw)"
  obtains msg dat where "msg \<in> rejections"
    and "GameSocket_handleMessage JSON_parse handleCommand raw p w
           = (p, Logger_error msg dat (Player_logger p) w)"
proof (cases "JSON_parse raw")
  case None
  show ?thesis
    by (rule that [of "[Lit ''Unable to deserialize socket message.'']"
                      "Some (JObj [(''raw_message'', JStr raw)])"])
      (simp_all add: GameSocket_handleMessage_def None rejections_def)
next
  case (Some d)
  note found = that
  have unparsed: ?thesis if "get_name d = None" "typeof_object d"
    by (rule found [of "[Lit ''Unable to deserialize socket message.'']"
                      "Some (JObj [(''raw_message'', JStr raw)])"])
      (simp_all add: GameSocket_handleMessage_def Some that rejections_def)
  have no_object: ?thesis if "\<not> typeof_object d"
    by (rule found [of "[Lit ''Socket message must represent a JSON object.'']"
                      "Some (JObj [(''raw_message'', JStr raw)])"])
      (simp_all add: GameSocket_handleMessage_def Some that rejections_def)
  have no_name: ?thesis if "get_name d = Some None" "typeof_object d"
    by (rule found [of "[Lit ''Commands must have a `name` property to be valid.'']"
                      "Some (JObj [(''invalid_command'', d)])"])
      (simp_all add: GameSocket_handleMessage_def Some that rejections_def)
  from assms Some show ?thesis
    by (cases d) (auto intro: unparsed no_object no_name)
qed

text \<open>
  C8, as stated, fails: the handler answers a message that is not JSON with nothing on the
  connection it came from; the error goes to the debug sockets that observe the player.
\<close>

theorem handleMessage_sends_no_error_event:
  "malformed (ex_parse_fails ''hello'')
   \<and> map_option sent (obj_get (sockets ex_world) ''5e5e'') = Some []
   \<and> map_option sent (obj_get (sockets (snd (GameSocket_handleMessage ex_parse_fails
        ex_handleCommand ''hello'' ex_observed_player ex_world))) ''5e5e'') = Some []
   \<and> map_option sent (obj_get (sockets (snd (GameSocket_handleMessage ex_parse_fails
        ex_handleCommand ''hello'' ex_observed_player ex_world))) ''dbdb'')
       = Some [Debug \<lparr>severity = ERROR,
                       message = [Lit ''Unable to deserialize socket message.''],
                       data = Some (JObj [(''raw_message'', JStr ''hello'')])\<rparr>]"
  by (simp add: GameSocket_handleMessage_def ex_parse_fails_def Logger_error_def
      broadcastDebugMessage_def obj_values_def on_socket_def obj_get_def Socket_send_def
      ws_send_def ex_observed_player_fields ex_world_sockets)

text \<open>
  C8, amended. Every inbound message on a game connection that is malformed (not parseable
  as JSON, not a JSON object, or without a \<^verbatim>\<open>name\<close> field) is rejected with an error
  report to the logger of the player, which passes a debug message of severity
  \<^verbatim>\<open>error\<close> with a human-readable text to each debug socket that observes the player;
  nothing is sent on the connection itself.  The player is unchanged and the result does
  not depend on \<^verbatim>\<open>handleCommand\<close> (the message does not reach it), every socket that is not
  one of these debug sockets, the game connection among them, is as it was (it is not
  closed), nothing is written to the console, and the handler returns.  A command with a
  non-empty string as its name for which \<^verbatim>\<open>handleCommand\<close> returns false is reported to
  the logger of the player as unknown.
\<close>

theorem handleMessage_rejects_malformed:
  assumes "malformed (JSON_parse raw)"
  shows "fst (GameSocket_handleMessage JSON_parse handleCommand raw p w) = p
       \<and> GameSocket_handleMessage JSON_parse handleCommand raw p w
           = GameSocket_handleMessage JSON_parse handleCommand' raw p w
       \<and> (\<exists>msg dat. msg \<in> rejections
             \<and> snd (GameSocket_handleMessage JSON_parse handleCommand raw p w)
             = broadcastDebugMessage \<lparr>severity = ERROR, message = msg, data = dat\<rparr>
                 (Player_logger p) w)
       \<and> (\<forall>s. s \<notin> set (obj_values (Logger_debugSockets (Player_logger p))) \<longrightarrow>
             obj_get (sockets (snd (GameSocket_handleMessage JSON_parse handleCommand raw p w))) s
               = obj_get (sockets w) s)
       \<and> console (snd (GameSocket_handleMessage JSON_parse handleCommand raw p w)) = console w
       \<and> (\<forall>kvs n p2 w2.
             JSON_parse' raw = Some (JObj kvs) \<and> map_of kvs ''name'' = Some (JStr n) \<and> n \<noteq> []
             \<and> handleCommand (JObj kvs) p
                 (Logger_trace [Lit (''Received command '' @ [CHR 0x22]), Val (JStr n),
                                Lit ([CHR 0x22] @ ''.'')]
                    (Some (JObj [(''command'', JObj kvs)])) (Player_logger p) w)
                 = (Inr False, p2, w2)
             \<longrightarrow> GameSocket_handleMessage JSON_parse' handleCommand raw p w
                   = (p2, Logger_error
                            [Lit (''Command '' @ [CHR 0x22]), Val (JStr n),
                             Lit ([CHR 0x22] @ '' is unknown and cannot be handled.'')]
                            (Some (JObj [(''command'', JObj kvs)])) (Player_logger p2) w2))"
proof -
  obtain msg dat where msg: "msg \<in> rejections"
    and rej: "GameSocket_handleMessage JSON_parse handleCommand raw p w
           = (p, Logger_error msg dat (Player_logger p) w)"
    using assms
    by (rule handleMessage_malformed
          [where JSON_parse = JSON_parse and raw = raw and handleCommand = handleCommand
             and p = p and w = w])
  have same: "GameSocket_handleMessage JSON_parse handleCommand raw p w
           = GameSocket_handleMessage JSON_parse handleCommand' raw p w"
  proof (cases "JSON_parse raw")
    case None
    then show ?thesis by (simp add: GameSocket_handleMessage_def)
  next
    case (Some d)
    with assms show ?thesis
      by (cases d) (simp_all add: GameSocket_handleMessage_def Let_def)
  qed
  have unknown: "GameSocket_handleMessage JSON_parse' handleCommand raw p w
                   = (p2, Logger_error
                            [Lit (''Command '' @ [CHR 0x22]), Val (JStr n),
                             Lit ([CHR 0x22] @ '' is unknown and cannot be handled.'')]
                            (Some (JObj [(''command'', JObj kvs)])) (Player_logger p2) w2)"
    if "JSON_parse' raw = Some (JObj kvs)" "map_of kvs ''name'' = Some (JStr n)" "n \<noteq> []"
       "handleCommand (JObj kvs) p
                 (Logger_trace [Lit (''Received command '' @ [CHR 0x22]), Val (JStr n),
                                Lit ([CHR 0x22] @ ''.'')]
                    (Some (JObj [(''command'', JObj kvs)])) (Player_logger p) w)
                 = (Inr False, p2, w2)" for kvs n p2 w2
    using that
    by (simp add: GameSocket_handleMessage_def Player_handleCommandInternalWrapper_def
        name_of_def Let_def)
  have report: "\<exists>msg dat. msg \<in> rejections
             \<and> snd (GameSocket_handleMessage JSON_parse handleCommand raw p w)
             = broadcastDebugMessage \<lparr>severity = ERROR, message = msg, data = dat\<rparr>
                 (Player_logger p) w"
    using msg rej by (auto simp: Logger_error_def)
  have others: "\<forall>s. s \<notin> set (obj_values (Logger_debugSockets (Player_logger p))) \<longrightarrow>
             obj_get (sockets (snd (GameSocket_handleMessage JSON_parse handleCommand raw p w))) s
               = obj_get (sockets w) s"
    using rej by (simp add: Logger_error_def broadcast_other)
  have quiet: "console (snd (GameSocket_handleMessage JSON_parse handleCommand raw p w))
                 = console w"
    using rej by (simp add: Logger_error_def broadcast_console)
  have player: "fst (GameSocket_handleMessage JSON_parse handleCommand raw p w) = p"
    using rej by simp
  from player same report others quiet unknown show ?thesis by blast
qed

theorem handleMessage_rejects_malformed_witness:
  "malformed (ex_parse_fails ''hello'')
   \<and> ''5e5e'' \<notin> set (obj_values (Logger_debugSockets (Player_logger ex_observed_player)))
   \<and> fst (GameSocket_handleMessage ex_parse_fails ex_handleCommand ''hello''
             ex_observed_player ex_world) = ex_observed_player
   \<and> obj_get (sockets (snd (GameSocket_handleMessage ex_parse_fails ex_handleCommand ''hello''
                                ex_observed_player ex_world))) ''5e5e''
       = obj_get (sockets ex_world) ''5e5e''
   \<and> ex_parse_ping ''hello'' = Some (JObj [(''name'', JStr ''ping'')])
   \<and> GameSocket_handleMessage ex_parse_ping ex_handleCommand ''hello'' ex_observed_player ex_world
       = (ex_observed_player,
          Logger_error
            [Lit (''Command '' @ [CHR 0x22]), Val (JStr ''ping''),
             Lit ([CHR 0x22] @ '' is unknown and cannot be handled.'')]
            (Some (JObj [(''command'', JObj [(''name'', JStr ''ping'')])]))
            (Player_logger ex_observed_player)
            (Logger_trace
               [Lit (''Received command '' @ [CHR 0x22]), Val (JStr ''ping''),
                Lit ([CHR 0x22] @ ''.'')]
               (Some (JObj [(''command'', JObj [(''name'', JStr ''ping'')])]))
               (Player_logger ex_observed_player) ex_world))"
proof -
  have mal: "malformed (ex_parse_fails ''hello'')"
    by (simp add: ex_parse_fails_def)
  have other: "''5e5e'' \<notin> set (obj_values (Logger_debugSockets (Player_logger ex_observed_player)))"
    by (simp add: ex_observed_player_fields obj_values_def)
  have ping: "ex_parse_ping ''hello'' = Some (JObj [(''name'', JStr ''ping'')])"
    by (simp add: ex_parse_ping_def)
  have name: "map_of [(''name'', JStr ''ping'')] ''name'' = Some (JStr ''ping'')" "''ping'' \<noteq> []"
    by simp_all
  have unhandled: "ex_handleCommand (JObj [(''name'', JStr ''ping'')]) ex_observed_player
         (Logger_trace
            [Lit (''Received command '' @ [CHR 0x22]), Val (JStr ''ping''),
             Lit ([CHR 0x22] @ ''.'')]
            (Some (JObj [(''command'', JObj [(''name'', JStr ''ping'')])]))
            (Player_logger ex_observed_player) ex_world)
       = (Inr False, ex_observed_player,
          Logger_trace
            [Lit (''Received command '' @ [CHR 0x22]), Val (JStr ''ping''),
             Lit ([CHR 0x22] @ ''.'')]
            (Some (JObj [(''command'', JObj [(''name'', JStr ''ping'')])]))
            (Player_logger ex_observed_player) ex_world)"
    by (simp add: ex_handleCommand_def)
  note rejected = handleMessage_rejects_malformed
    [where JSON_parse = ex_parse_fails and raw = "''hello''" and handleCommand = ex_handleCommand
       and p = ex_observed_player and w = ex_world and JSON_parse' = ex_parse_ping, OF mal]
  from rejected other ping name unhandled mal show ?thesis by blast
qed

end
